theory Spec2Isabelle
  imports Complex_Main "HOL-Library.Multiset" "HOL-Library.Monad_Syntax"
begin

section \<open>Risk tier policy and prediction (make_prediction)\<close>

text \<open>
  The tier is one of four string constants in the source; it is an enumeration here.
  Probabilities are floats in the source; the thresholds 0.7, 0.5 and 0.3 and the
  probability are read as exact real numbers (rounding is not modelled).
\<close>

datatype risk = Low | Medium | High | Critical

text \<open>The conditional expression of lines 739 to 744, on the probability alone.\<close>

definition risk_of :: "real \<Rightarrow> risk" where
  "risk_of prob =
     (if prob \<ge> 0.7 then Critical
      else if prob \<ge> 0.5 then High
      else if prob \<ge> 0.3 then Medium
      else Low)"

text \<open>The ordering Low, Medium, High, Critical as a rank.\<close>

fun risk_rank :: "risk \<Rightarrow> nat" where
  "risk_rank Low = 0"
| "risk_rank Medium = 1"
| "risk_rank High = 2"
| "risk_rank Critical = 3"

section \<open>Narrative composer: template selection (render_explanation)\<close>

text \<open>
  The four branches of lines 1022 to 1137 set the card class, the header colour,
  the header and the list of recommended actions; these literal fields identify the
  template. The three paragraphs interpolate formatted floats into the template and
  are not part of the record. The em dash of the source is written as its three
  UTF-8 bytes.
\<close>

record template =
  card_mod :: string
  hdr_color :: string
  hdr :: string
  acts :: "string list"

definition emdash :: string where
  "emdash = [CHR 0xE2, CHR 0x80, CHR 0x94]"

definition render_explanation :: "int \<Rightarrow> real \<Rightarrow> template" where
  "render_explanation pred prob =
     (if pred = 1 \<and> prob \<ge> 0.7 then
        \<lparr> card_mod = ''exp-card-critical'', hdr_color = ''#c0392b'',
          hdr = ''Critical Risk '' @ emdash @ '' Immediate Attention Required'',
          acts =
            [''Review the company's cash position and near-term financial obligations immediately.'',
             ''Assess whether outstanding debts can be refinanced or renegotiated before maturity.'',
             ''Examine whether operational cost reductions could restore positive cash generation.'',
             ''Increase monitoring frequency significantly until the risk picture improves.'',
             ''Consider whether the current level of exposure to this company is appropriate.''] \<rparr>
      else if pred = 1 \<and> prob \<ge> 0.5 then
        \<lparr> card_mod = ''exp-card-high'', hdr_color = ''#c0640c'',
          hdr = ''High Risk '' @ emdash @ '' Close Monitoring Recommended'',
          acts =
            [''Conduct a detailed cash flow and liquidity review covering the next 12 months.'',
             ''Identify and review any debt covenants or obligations with approaching deadlines.'',
             ''Assess operational efficiency '' @ emdash @ '' where can costs be reduced or working capital improved?'',
             ''Monitor the next quarterly results closely for early signs of improvement.'',
             ''Review whether the current level of exposure is appropriate given the risk profile.''] \<rparr>
      else if prob \<ge> 0.3 then
        \<lparr> card_mod = ''exp-card-medium'', hdr_color = ''#9a6f00'',
          hdr = ''Moderate Risk '' @ emdash @ '' Worth Monitoring'',
          acts =
            [''Continue monitoring on a monthly basis.'',
             ''Track the next earnings release for any signs of deterioration.'',
             ''Stay aware of broader sector conditions '' @ emdash @ '' particularly oil prices and regional economic shifts.'',
             ''No immediate action required, but flag as a company to watch.''] \<rparr>
      else
        \<lparr> card_mod = ''exp-card-ok'', hdr_color = ''#1a7a4a'',
          hdr = ''Low Risk '' @ emdash @ '' Financially Sound'',
          acts =
            [''No immediate action required '' @ emdash @ '' the company is in good financial standing.'',
             ''Continue with standard periodic monitoring.'',
             ''This company can serve as a useful benchmark for peer comparisons within the sector.'',
             ''Keep an eye on broader macro conditions (oil prices, interest rates, regional currency moves).''] \<rparr>)"

text \<open>The tier whose template a card class belongs to.\<close>

definition template_tier :: "template \<Rightarrow> risk option" where
  "template_tier t =
     (if card_mod t = ''exp-card-critical'' then Some Critical
      else if card_mod t = ''exp-card-high'' then Some High
      else if card_mod t = ''exp-card-medium'' then Some Medium
      else if card_mod t = ''exp-card-ok'' then Some Low
      else None)"

section \<open>Model loading (load_model_resources)\<close>

text \<open>
  A loaded pickle is an arbitrary Python object. What the loader asks of it is
  whether it has the attribute predict_proba, whether it is a dict, and its truth
  value (the operand of \<^verbatim>\<open>or\<close>); an object that is not a dict
  and not None carries the two flags. A dict keeps its items in insertion order.
\<close>

datatype artifact =
    NoneObj
  | Obj bool bool
  | DictObj "(string \<times> artifact) list"

fun has_predict_proba :: "artifact \<Rightarrow> bool" where
  "has_predict_proba (Obj pp t) = pp"
| "has_predict_proba NoneObj = False"
| "has_predict_proba (DictObj items) = False"

fun truthy :: "artifact \<Rightarrow> bool" where
  "truthy NoneObj = False"
| "truthy (Obj pp t) = t"
| "truthy (DictObj items) = (items \<noteq> [])"

text \<open>\<^verbatim>\<open>a or b\<close>: the first operand when it is true, else the second.\<close>

definition py_or :: "artifact \<Rightarrow> artifact \<Rightarrow> artifact" where
  "py_or a b = (if truthy a then a else b)"

text \<open>\<^verbatim>\<open>raw.get(key)\<close>: the value, or None when the key is absent.\<close>

definition dict_get :: "(string \<times> artifact) list \<Rightarrow> string \<Rightarrow> artifact" where
  "dict_get items key = (case map_of items key of None \<Rightarrow> NoneObj | Some v \<Rightarrow> v)"

text \<open>
  \<^verbatim>\<open>next((v for v in raw.values() if hasattr(v, "predict_proba")), None)\<close>
\<close>

definition first_with_predict_proba :: "(string \<times> artifact) list \<Rightarrow> artifact" where
  "first_with_predict_proba items =
     (case find has_predict_proba (map snd items) of None \<Rightarrow> NoneObj | Some v \<Rightarrow> v)"

text \<open>
  \<^verbatim>\<open>st.error(...); st.stop()\<close> ends the run: the loader's outcome is either
  the stop, with the error shown, or the returned value.
\<close>

datatype load_error =
    ModelFileMissing
  | ModelUnpickleFailed
  | NoEstimatorInDict
  | UnexpectedModelType
  | ScalerFileMissing
  | ScalerUnpickleFailed

datatype 'a outcome = Stopped load_error | Returned 'a

text \<open>A file of the model directory: not found, found but not unpicklable, or its content.\<close>

datatype 'a fetched = Missing | Corrupt | Content 'a

text \<open>Lines 535 to 551: the raw estimator, or the estimator inside a legacy dict.\<close>

definition resolve_model :: "artifact \<Rightarrow> artifact outcome" where
  "resolve_model raw =
     (if has_predict_proba raw then Returned raw
      else (case raw of
        DictObj items \<Rightarrow>
          (let model =
             py_or (dict_get items ''final_model'')
               (py_or (dict_get items ''best_model'') (first_with_predict_proba items))
           in if model = NoneObj then Stopped NoEstimatorInDict else Returned model)
      | _ \<Rightarrow> Stopped UnexpectedModelType))"

text \<open>
  The whole loader. The scaler is opaque (any type); the SHAP explainer is built by
  the library from the model and may fail, in which case it is None.
\<close>

definition load_model_resources ::
  "artifact fetched \<Rightarrow> 's fetched \<Rightarrow> (artifact \<Rightarrow> 'e option) \<Rightarrow>
   (artifact \<times> 's \<times> 'e option) outcome" where
  "load_model_resources model_file scaler_file tree_explainer =
     (case model_file of
        Missing \<Rightarrow> Stopped ModelFileMissing
      | Corrupt \<Rightarrow> Stopped ModelUnpickleFailed
      | Content raw \<Rightarrow>
          (case resolve_model raw of
             Stopped e \<Rightarrow> Stopped e
           | Returned model \<Rightarrow>
               (case scaler_file of
                  Missing \<Rightarrow> Stopped ScalerFileMissing
                | Corrupt \<Rightarrow> Stopped ScalerUnpickleFailed
                | Content scaler \<Rightarrow> Returned (model, scaler, tree_explainer model))))"

section \<open>Feature extraction (calculate_all_metrics)\<close>

subsection \<open>Floating point values\<close>

text \<open>
  A float is a finite value, one of the two infinities, or NaN. Finite values are exact
  reals: rounding, overflow and the sign of zero are not modelled. The operations follow
  IEEE 754 on the special values, which is how numpy and pandas compute on float64
  columns (a division by zero there gives an infinity or NaN and raises nothing).
\<close>

datatype fl = Fin real | PInf | NInf | NaN

fun fl_neg :: "fl \<Rightarrow> fl" where
  "fl_neg (Fin x) = Fin (- x)"
| "fl_neg PInf = NInf"
| "fl_neg NInf = PInf"
| "fl_neg NaN = NaN"

fun fl_abs :: "fl \<Rightarrow> fl" where
  "fl_abs (Fin x) = Fin \<bar>x\<bar>"
| "fl_abs PInf = PInf"
| "fl_abs NInf = PInf"
| "fl_abs NaN = NaN"

fun fl_add :: "fl \<Rightarrow> fl \<Rightarrow> fl" where
  "fl_add (Fin x) (Fin y) = Fin (x + y)"
| "fl_add NaN b = NaN"
| "fl_add a NaN = NaN"
| "fl_add PInf NInf = NaN"
| "fl_add NInf PInf = NaN"
| "fl_add PInf b = PInf"
| "fl_add a PInf = PInf"
| "fl_add NInf b = NInf"
| "fl_add a NInf = NInf"

definition fl_sub :: "fl \<Rightarrow> fl \<Rightarrow> fl" where
  "fl_sub a b = fl_add a (fl_neg b)"

fun fl_sign :: "fl \<Rightarrow> int" where
  "fl_sign (Fin x) = (if x > 0 then 1 else if x < 0 then -1 else 0)"
| "fl_sign PInf = 1"
| "fl_sign NInf = -1"
| "fl_sign NaN = 0"

definition inf_of :: "int \<Rightarrow> fl" where
  "inf_of s = (if s > 0 then PInf else if s < 0 then NInf else NaN)"

fun fl_mul :: "fl \<Rightarrow> fl \<Rightarrow> fl" where
  "fl_mul (Fin x) (Fin y) = Fin (x * y)"
| "fl_mul NaN b = NaN"
| "fl_mul a NaN = NaN"
| "fl_mul a b = inf_of (fl_sign a * fl_sign b)"

fun fl_div :: "fl \<Rightarrow> fl \<Rightarrow> fl" where
  "fl_div (Fin x) (Fin y) = (if y \<noteq> 0 then Fin (x / y) else inf_of (fl_sign (Fin x)))"
| "fl_div NaN b = NaN"
| "fl_div a NaN = NaN"
| "fl_div (Fin x) b = Fin 0"
| "fl_div a (Fin y) = inf_of (fl_sign a * (if y < 0 then -1 else 1))"
| "fl_div a b = NaN"

fun fl_lt :: "fl \<Rightarrow> fl \<Rightarrow> bool" where
  "fl_lt (Fin x) (Fin y) = (x < y)"
| "fl_lt NaN b = False"
| "fl_lt a NaN = False"
| "fl_lt a NInf = False"
| "fl_lt PInf b = False"
| "fl_lt NInf b = True"
| "fl_lt a PInf = True"

subsection \<open>Python values and exceptions\<close>

text \<open>
  The values the function computes with are None, an int or a float. Arithmetic on two
  ints stays an int, true division always gives a float, and an operation on None raises
  TypeError. A raise is the left summand of the result; and_then sequences two steps and
  stops at the first raise. Python's true division raises ZeroDivisionError on a zero
  divisor (an int or float divisor, not a numpy one).
\<close>

datatype pyval = PNone | PInt int | PFloat fl

datatype py_error = TypeError | ZeroDivisionError | IndexError

definition and_then :: "py_error + 'a \<Rightarrow> ('a \<Rightarrow> py_error + 'b) \<Rightarrow> py_error + 'b" where
  "and_then r f = (case r of Inl e \<Rightarrow> Inl e | Inr v \<Rightarrow> f v)"

fun to_fl :: "pyval \<Rightarrow> py_error + fl" where
  "to_fl PNone = Inl TypeError"
| "to_fl (PInt i) = Inr (Fin (real_of_int i))"
| "to_fl (PFloat x) = Inr x"

fun py_add :: "pyval \<Rightarrow> pyval \<Rightarrow> py_error + pyval" where
  "py_add (PInt i) (PInt j) = Inr (PInt (i + j))"
| "py_add a b = and_then (to_fl a) (\<lambda>x. and_then (to_fl b) (\<lambda>y. Inr (PFloat (fl_add x y))))"

fun py_sub :: "pyval \<Rightarrow> pyval \<Rightarrow> py_error + pyval" where
  "py_sub (PInt i) (PInt j) = Inr (PInt (i - j))"
| "py_sub a b = and_then (to_fl a) (\<lambda>x. and_then (to_fl b) (\<lambda>y. Inr (PFloat (fl_sub x y))))"

fun py_mul :: "pyval \<Rightarrow> pyval \<Rightarrow> py_error + pyval" where
  "py_mul (PInt i) (PInt j) = Inr (PInt (i * j))"
| "py_mul a b = and_then (to_fl a) (\<lambda>x. and_then (to_fl b) (\<lambda>y. Inr (PFloat (fl_mul x y))))"

definition py_truediv :: "pyval \<Rightarrow> pyval \<Rightarrow> py_error + pyval" where
  "py_truediv a b =
     and_then (to_fl a) (\<lambda>x. and_then (to_fl b) (\<lambda>y.
       if y = Fin 0 then Inl ZeroDivisionError else Inr (PFloat (fl_div x y))))"

fun py_abs :: "pyval \<Rightarrow> py_error + pyval" where
  "py_abs PNone = Inl TypeError"
| "py_abs (PInt i) = Inr (PInt \<bar>i\<bar>)"
| "py_abs (PFloat x) = Inr (PFloat (fl_abs x))"

definition py_gt :: "pyval \<Rightarrow> pyval \<Rightarrow> py_error + bool" where
  "py_gt a b = and_then (to_fl a) (\<lambda>x. and_then (to_fl b) (\<lambda>y. Inr (fl_lt y x)))"

fun py_truthy :: "pyval \<Rightarrow> bool" where
  "py_truthy PNone = False"
| "py_truthy (PInt i) = (i \<noteq> 0)"
| "py_truthy (PFloat x) = (x \<noteq> Fin 0)"

fun np_isnan :: "pyval \<Rightarrow> py_error + bool" where
  "np_isnan PNone = Inl TypeError"
| "np_isnan (PInt i) = Inr False"
| "np_isnan (PFloat x) = Inr (x = NaN)"

fun py_float :: "pyval \<Rightarrow> py_error + pyval" where
  "py_float PNone = Inl TypeError"
| "py_float (PInt i) = Inr (PFloat (Fin (real_of_int i)))"
| "py_float (PFloat x) = Inr (PFloat x)"

text \<open>Positional indexing with Python's negative indices; out of range raises IndexError.\<close>

definition iloc :: "'a list \<Rightarrow> int \<Rightarrow> py_error + 'a" where
  "iloc xs i =
     (if 0 \<le> i \<and> i < int (length xs) then Inr (xs ! nat i)
      else if i < 0 \<and> - int (length xs) \<le> i then Inr (xs ! nat (int (length xs) + i))
      else Inl IndexError)"

subsection \<open>pandas Series of float64\<close>

text \<open>
  A numeric Series is the list of its values. shift(1), diff, pct_change, dropna, tail,
  where, replace, sum, mean, std (sample standard deviation), rolling(w).mean() (NaN until
  the window holds w non-missing values) and the row-wise max of concat(axis=1) skip or
  propagate NaN as pandas does.
\<close>

definition shift1 :: "fl list \<Rightarrow> fl list" where
  "shift1 xs = (if xs = [] then [] else NaN # butlast xs)"

definition s_sub :: "fl list \<Rightarrow> fl list \<Rightarrow> fl list" where
  "s_sub xs ys = map (\<lambda>(x, y). fl_sub x y) (zip xs ys)"

definition s_div :: "fl list \<Rightarrow> fl list \<Rightarrow> fl list" where
  "s_div xs ys = map (\<lambda>(x, y). fl_div x y) (zip xs ys)"

definition diff :: "fl list \<Rightarrow> fl list" where
  "diff xs = s_sub xs (shift1 xs)"

definition pct_change :: "fl list \<Rightarrow> fl list" where
  "pct_change xs = map (\<lambda>q. fl_sub q (Fin 1)) (s_div xs (shift1 xs))"

definition dropna :: "fl list \<Rightarrow> fl list" where
  "dropna xs = filter (\<lambda>x. x \<noteq> NaN) xs"

definition tail :: "nat \<Rightarrow> 'a list \<Rightarrow> 'a list" where
  "tail n xs = drop (length xs - n) xs"

definition s_where :: "(fl \<Rightarrow> bool) \<Rightarrow> fl list \<Rightarrow> fl \<Rightarrow> fl list" where
  "s_where cond xs other = map (\<lambda>x. if cond x then x else other) xs"

definition s_replace :: "fl \<Rightarrow> fl \<Rightarrow> fl list \<Rightarrow> fl list" where
  "s_replace old new xs = map (\<lambda>x. if x = old then new else x) xs"

definition s_sum :: "fl list \<Rightarrow> fl" where
  "s_sum xs = foldl fl_add (Fin 0) (dropna xs)"

definition s_mean :: "fl list \<Rightarrow> fl" where
  "s_mean xs =
     (let ys = dropna xs
      in if ys = [] then NaN else fl_div (s_sum ys) (Fin (real (length ys))))"

fun fl_sqrt :: "fl \<Rightarrow> fl" where
  "fl_sqrt (Fin x) = (if x < 0 then NaN else Fin (sqrt x))"
| "fl_sqrt PInf = PInf"
| "fl_sqrt NInf = NaN"
| "fl_sqrt NaN = NaN"

definition s_std :: "fl list \<Rightarrow> fl" where
  "s_std xs =
     (let ys = dropna xs
      in if length ys < 2 then NaN
         else let avg = fl_div (s_sum ys) (Fin (real (length ys)));
                  sqr = map (\<lambda>y. fl_mul (fl_sub avg y) (fl_sub avg y)) ys
              in fl_sqrt (fl_div (foldl fl_add (Fin 0) sqr) (Fin (real (length ys - 1)))))"

definition window_mean :: "nat \<Rightarrow> fl list \<Rightarrow> fl" where
  "window_mean w ys =
     (let win = tail w ys
      in if length (dropna win) < w then NaN else s_mean win)"

definition rolling_mean :: "nat \<Rightarrow> fl list \<Rightarrow> fl list" where
  "rolling_mean w xs = map (\<lambda>i. window_mean w (take (Suc i) xs)) [0..<length xs]"

definition fl_max :: "fl \<Rightarrow> fl \<Rightarrow> fl" where
  "fl_max a b = (if a = NaN then b else if b = NaN then a else if fl_lt a b then b else a)"

definition row_max :: "fl list \<Rightarrow> fl" where
  "row_max row = foldl fl_max NaN row"

subsection \<open>The raw snapshot\<close>

text \<open>
  The argument holds three statement frames, the info dict and the price history. A frame
  is the list of its columns, newest first, each a map from row label to value; the
  history is the list of its daily bars, whose five columns hold finite numbers. The info
  dict maps a key to None, an int or a float. The clock that line 696 reads is an argument.
\<close>

record candle =
  bar_open :: real
  bar_high :: real
  bar_low :: real
  bar_close :: real
  bar_volume :: real

type_synonym frame = "(string \<rightharpoonup> fl) list"

record snapshot =
  balance_sheet :: frame
  financials :: frame
  cash_flow :: frame
  info :: "string \<rightharpoonup> pyval"
  history :: "candle list"

record datetime =
  year :: int
  month :: int
  day :: int
  hour :: int
  minute :: int
  second :: int

text \<open>
  A column of the history; the newest column of a frame (an empty Series for a frame with
  no column); gv (lines 622 to 626) and dict.get.
\<close>

definition column :: "(candle \<Rightarrow> real) \<Rightarrow> candle list \<Rightarrow> fl list" where
  "column f hist = map (\<lambda>c. Fin (f c)) hist"

definition latest :: "frame \<Rightarrow> (string \<rightharpoonup> fl)" where
  "latest fr = (if length fr > 0 then hd fr else Map.empty)"

definition gv :: "(string \<rightharpoonup> fl) \<Rightarrow> string \<Rightarrow> pyval \<Rightarrow> pyval" where
  "gv series key dflt = (case series key of Some x \<Rightarrow> PFloat x | None \<Rightarrow> dflt)"

definition info_get :: "(string \<rightharpoonup> pyval) \<Rightarrow> string \<Rightarrow> pyval \<Rightarrow> pyval" where
  "info_get i key dflt = (case i key of Some v \<Rightarrow> v | None \<Rightarrow> dflt)"

subsection \<open>Fundamentals (lines 628 to 646)\<close>

definition lbs :: "snapshot \<Rightarrow> (string \<rightharpoonup> fl)" where
  "lbs data = latest (balance_sheet data)"

definition lfin :: "snapshot \<Rightarrow> (string \<rightharpoonup> fl)" where
  "lfin data = latest (financials data)"

definition lcf :: "snapshot \<Rightarrow> (string \<rightharpoonup> fl)" where
  "lcf data = latest (cash_flow data)"

definition assets :: "snapshot \<Rightarrow> pyval" where
  "assets data = gv (lbs data) ''Total Assets'' (info_get (info data) ''totalAssets'' (PInt 0))"

definition equity :: "snapshot \<Rightarrow> pyval" where
  "equity data =
     gv (lbs data) ''Total Stockholder Equity''
       (info_get (info data) ''totalStockholderEquity'' (PInt 0))"

definition curr_a :: "snapshot \<Rightarrow> pyval" where
  "curr_a data = gv (lbs data) ''Current Assets'' (PInt 0)"

definition curr_l :: "snapshot \<Rightarrow> pyval" where
  "curr_l data = gv (lbs data) ''Current Liabilities'' (PInt 0)"

definition retained :: "snapshot \<Rightarrow> pyval" where
  "retained data = gv (lbs data) ''Retained Earnings'' (PInt 0)"

definition debt :: "snapshot \<Rightarrow> py_error + pyval" where
  "debt data =
     (let d = gv (lbs data) ''Total Debt'' (PInt 0)
      in if py_truthy d then Inr d
         else py_add (gv (lbs data) ''Long Term Debt'' (PInt 0))
                (gv (lbs data) ''Short Long Term Debt'' (PInt 0)))"

definition net_inc :: "snapshot \<Rightarrow> pyval" where
  "net_inc data = gv (lfin data) ''Net Income'' (PInt 0)"

definition revenue :: "snapshot \<Rightarrow> pyval" where
  "revenue data = gv (lfin data) ''Total Revenue'' (PInt 0)"

definition ebit :: "snapshot \<Rightarrow> pyval" where
  "ebit data = gv (lfin data) ''EBIT'' (PInt 0)"

definition ocf :: "snapshot \<Rightarrow> pyval" where
  "ocf data = gv (lcf data) ''Total Cash From Operating Activities'' (PInt 0)"

definition capex :: "snapshot \<Rightarrow> pyval" where
  "capex data = gv (lcf data) ''Capital Expenditures'' (PInt 0)"

definition fcf :: "snapshot \<Rightarrow> py_error + pyval" where
  "fcf data =
     (let f = gv (lcf data) ''Free Cash Flow'' (PInt 0)
      in if py_truthy f then Inr f
         else if py_truthy (ocf data)
           then and_then (py_abs (capex data)) (\<lambda>a. py_sub (ocf data) a)
           else Inr (PInt 0))"

definition mkt_cap :: "snapshot \<Rightarrow> pyval" where
  "mkt_cap data =
     (let m = info_get (info data) ''marketCap'' (PInt 0)
      in if py_truthy m then m else PInt 0)"

subsection \<open>Market statistics (lines 647 to 680)\<close>

definition rets :: "candle list \<Rightarrow> fl list" where
  "rets hist = dropna (pct_change (column bar_close hist))"

definition lat_ret :: "candle list \<Rightarrow> py_error + pyval" where
  "lat_ret hist =
     (if length (rets hist) > 0
      then and_then (iloc (rets hist) (- 1)) (\<lambda>r. Inr (PFloat (fl_mul r (Fin 100))))
      else Inr (PInt 0))"

definition vol_20 :: "candle list \<Rightarrow> pyval" where
  "vol_20 hist =
     (if length (rets hist) \<ge> 20
      then PFloat (fl_mul (fl_mul (s_std (tail 20 (rets hist))) (Fin (sqrt 252))) (Fin 100))
      else PInt 0)"

definition pr_pct :: "candle list \<Rightarrow> py_error + pyval" where
  "pr_pct hist =
     (if length hist > 0
      then and_then (iloc (column bar_open hist) (- 1)) (\<lambda>opn.
        if fl_lt (Fin 0) opn
        then and_then (iloc (column bar_high hist) (- 1)) (\<lambda>hi.
             and_then (iloc (column bar_low hist) (- 1)) (\<lambda>lo.
             and_then (iloc (column bar_open hist) (- 1)) (\<lambda>op2.
               Inr (PFloat (fl_mul (fl_div (fl_sub hi lo) op2) (Fin 100))))))
        else Inr (PFloat (Fin 0)))
      else Inr (PFloat (Fin 0)))"

definition true_range :: "candle list \<Rightarrow> fl list" where
  "true_range hist =
     (let prev = shift1 (column bar_close hist);
          a = s_sub (column bar_high hist) (column bar_low hist);
          b = map fl_abs (s_sub (column bar_high hist) prev);
          c = map fl_abs (s_sub (column bar_low hist) prev)
      in map (\<lambda>(x, y, z). row_max [x, y, z]) (zip a (zip b c)))"

definition tr :: "candle list \<Rightarrow> py_error + pyval" where
  "tr hist =
     (if length hist > 1
      then and_then (iloc (true_range hist) (- 1)) (\<lambda>t. Inr (PFloat t))
      else Inr (PFloat (Fin 0)))"

definition dc :: "candle list \<Rightarrow> py_error + pyval" where
  "dc hist =
     (let ma50 = rolling_mean 50 (column bar_close hist);
          ma200 = rolling_mean 200 (column bar_close hist)
      in if length ma50 > 0 \<and> length ma200 > 0
         then and_then (iloc ma50 (- 1)) (\<lambda>a.
              if a = NaN then Inr (PInt 0)
              else and_then (iloc ma200 (- 1)) (\<lambda>b.
                if b = NaN then Inr (PInt 0)
                else Inr (PInt (if fl_lt a b then 1 else 0))))
         else Inr (PInt 0))"

definition rsi_s :: "candle list \<Rightarrow> fl list" where
  "rsi_s hist =
     (let delta = diff (column bar_close hist);
          gain = rolling_mean 14 (s_where (\<lambda>x. fl_lt (Fin 0) x) delta (Fin 0));
          loss = rolling_mean 14 (map fl_neg (s_where (\<lambda>x. fl_lt x (Fin 0)) delta (Fin 0)));
          rs = s_div gain (s_replace (Fin 0) NaN loss)
      in map (\<lambda>r. fl_sub (Fin 100) (fl_div (Fin 100) (fl_add (Fin 1) r))) rs)"

definition rsi14 :: "candle list \<Rightarrow> py_error + pyval" where
  "rsi14 hist =
     (if length (rsi_s hist) > 0
      then and_then (iloc (rsi_s hist) (- 1)) (\<lambda>r.
        if r \<noteq> NaN then Inr (PFloat r) else Inr (PInt 50))
      else Inr (PInt 50))"

definition roc20 :: "candle list \<Rightarrow> py_error + pyval" where
  "roc20 hist =
     (if length hist > 20
      then and_then (iloc (column bar_close hist) (- 21)) (\<lambda>old.
        if old \<noteq> Fin 0
        then and_then (iloc (column bar_close hist) (- 1)) (\<lambda>new.
               Inr (PFloat (fl_mul (fl_div (fl_sub new old) old) (Fin 100))))
        else Inr (PFloat (Fin 0)))
      else Inr (PFloat (Fin 0)))"

subsection \<open>Ratios (lines 682 to 694)\<close>

text \<open>
  The guarded quotient (lines 682 to 685), the guarded percentage (lines 686 to 688), one
  weighted term of the score and the score itself (lines 691 to 694), evaluated left to
  right as Python does.
\<close>

definition guarded_ratio :: "pyval \<Rightarrow> pyval \<Rightarrow> py_error + pyval" where
  "guarded_ratio num den =
     and_then (py_gt den (PInt 0)) (\<lambda>pos.
       if pos then py_truediv num den else Inr (PInt 0))"

definition guarded_pct :: "pyval \<Rightarrow> pyval \<Rightarrow> py_error + pyval" where
  "guarded_pct num den =
     and_then (py_gt den (PInt 0)) (\<lambda>pos.
       if pos then and_then (py_truediv num den) (\<lambda>q. py_mul q (PInt 100))
       else Inr (PInt 0))"

definition weighted :: "real \<Rightarrow> pyval \<Rightarrow> pyval \<Rightarrow> py_error + pyval" where
  "weighted k num den = and_then (py_mul (PFloat (Fin k)) num) (\<lambda>p. py_truediv p den)"

definition altman_z :: "pyval \<Rightarrow> pyval \<Rightarrow> pyval \<Rightarrow> pyval \<Rightarrow> pyval \<Rightarrow> pyval \<Rightarrow> pyval
    \<Rightarrow> py_error + pyval" where
  "altman_z wc assets' retained' ebit' equity' debt' revenue' =
     and_then (py_gt assets' (PInt 0)) (\<lambda>pos.
       if pos then
         and_then (weighted 1.2 wc assets') (\<lambda>t1.
         and_then (weighted 1.4 retained' assets') (\<lambda>t2.
         and_then (py_add t1 t2) (\<lambda>s2.
         and_then (weighted 3.3 ebit' assets') (\<lambda>t3.
         and_then (py_add s2 t3) (\<lambda>s3.
         and_then (and_then (py_gt debt' (PInt 0)) (\<lambda>dpos.
                     if dpos then weighted 0.6 equity' debt' else Inr (PInt 0))) (\<lambda>t4.
         and_then (py_add s3 t4) (\<lambda>s4.
         and_then (weighted 1.0 revenue' assets') (\<lambda>t5.
         py_add s4 t5))))))))
       else Inr (PFloat (Fin 0)))"

subsection \<open>The feature dictionary (lines 696 to 731)\<close>

definition SELECTED_FEATURES :: "string list" where
  "SELECTED_FEATURES =
     [''Market_Cap_USD'', ''Low'', ''Volume'', ''Daily_Return_%'', ''Price_Range_%'',
      ''ROA_%'', ''Equity_Ratio'', ''Asset_Turnover'', ''OCF_to_Debt'', ''Altman_Z_Score'',
      ''Death_Cross'', ''True_Range'', ''RSI_14'', ''US_10Y'',
      ''Oil_Volatility_20D'', ''Oil_Below_60'', ''Oil_Below_40'', ''Brent_Change_%'',
      ''VIX_Change_%'', ''Very_High_VIX'', ''Strong_Dollar'',
      ''SAR_USD'', ''KWD_USD'', ''QAR_USD_Volatility_20D'', ''BHD_USD_Volatility_20D'',
      ''Gulf_Crisis_End'', ''Is_Month_End'',
      ''Very_High_Governance_Risk'', ''Has_Controversy'', ''Poor_Governance'',
      ''Operating Cf_M'', ''Free Cf_M'', ''Debt_to_Equity'', ''ROE_%'', ''Net_Profit_Margin_%'',
      ''Volatility_20'', ''ROC_20'',
      ''Egypt_FX_Crisis'', ''EGP_USD_Change_%'', ''Pandemic_Recession'',
      ''Environment_Score'', ''Social_Score'',
      ''Young_Company'', ''Low_Institutional_Ownership'',
      ''Month_x'']"

text \<open>The four entries of the dict that are computed in place (lines 700 to 702, 723).\<close>

definition low_value :: "candle list \<Rightarrow> py_error + pyval" where
  "low_value hist =
     (if length hist > 0
      then and_then (iloc (column bar_low hist) (- 1)) (\<lambda>x. Inr (PFloat x))
      else Inr (PInt 0))"

definition volume_value :: "candle list \<Rightarrow> pyval" where
  "volume_value hist =
     (if length hist > 0 then PFloat (s_mean (column bar_volume hist)) else PInt 0)"

definition daily_return_value :: "pyval \<Rightarrow> py_error + pyval" where
  "daily_return_value lr =
     and_then (np_isnan lr) (\<lambda>nan. if \<not> nan then Inr lr else Inr (PInt 0))"

definition volatility_value :: "pyval \<Rightarrow> py_error + pyval" where
  "volatility_value v =
     and_then (np_isnan v) (\<lambda>nan. if \<not> nan then py_float v else Inr (PInt 0))"

text \<open>
  The body of the try block. The dict is the list of its items in insertion order. Any
  exception makes the function return None (lines 730 to 731).
\<close>

definition metrics_body :: "snapshot \<Rightarrow> datetime \<Rightarrow> py_error + (string \<times> pyval) list" where
  "metrics_body data today =
     (let hist = history data in
      and_then (debt data) (\<lambda>debt'.
      and_then (fcf data) (\<lambda>fcf'.
      and_then (lat_ret hist) (\<lambda>lat_ret'.
      and_then (pr_pct hist) (\<lambda>pr_pct'.
      and_then (tr hist) (\<lambda>tr'.
      and_then (dc hist) (\<lambda>dc'.
      and_then (rsi14 hist) (\<lambda>rsi14'.
      and_then (roc20 hist) (\<lambda>roc20'.
      and_then (guarded_ratio (equity data) (assets data)) (\<lambda>eq_r.
      and_then (guarded_ratio (revenue data) (assets data)) (\<lambda>at'.
      and_then (guarded_ratio (ocf data) debt') (\<lambda>o2d.
      and_then (guarded_ratio debt' (equity data)) (\<lambda>d2e.
      and_then (guarded_pct (net_inc data) (equity data)) (\<lambda>roe.
      and_then (guarded_pct (net_inc data) (assets data)) (\<lambda>roa.
      and_then (guarded_pct (net_inc data) (revenue data)) (\<lambda>npm.
      and_then (py_sub (curr_a data) (curr_l data)) (\<lambda>wc.
      and_then (altman_z wc (assets data) (retained data) (ebit data) (equity data) debt'
                  (revenue data)) (\<lambda>z.
      and_then (low_value hist) (\<lambda>low'.
      and_then (daily_return_value lat_ret') (\<lambda>daily'.
      and_then (py_truediv (ocf data) (PFloat (Fin 1000000))) (\<lambda>ocf_m.
      and_then (py_truediv fcf' (PFloat (Fin 1000000))) (\<lambda>fcf_m.
      and_then (volatility_value (vol_20 hist)) (\<lambda>vol'.
      Inr
        [(''Market_Cap_USD'', mkt_cap data),
         (''Low'', low'),
         (''Volume'', volume_value hist),
         (''Daily_Return_%'', daily'),
         (''Price_Range_%'', pr_pct'),
         (''ROA_%'', roa),
         (''Equity_Ratio'', eq_r),
         (''Asset_Turnover'', at'),
         (''OCF_to_Debt'', o2d),
         (''Altman_Z_Score'', z),
         (''Death_Cross'', dc'),
         (''True_Range'', tr'),
         (''RSI_14'', rsi14'),
         (''US_10Y'', PInt 0), (''Oil_Volatility_20D'', PInt 0), (''Oil_Below_60'', PInt 0),
         (''Oil_Below_40'', PInt 0),
         (''Brent_Change_%'', PInt 0), (''VIX_Change_%'', PInt 0), (''Very_High_VIX'', PInt 0),
         (''Strong_Dollar'', PInt 0),
         (''SAR_USD'', PInt 0), (''KWD_USD'', PInt 0), (''QAR_USD_Volatility_20D'', PInt 0),
         (''BHD_USD_Volatility_20D'', PInt 0),
         (''Gulf_Crisis_End'', PInt 0),
         (''Is_Month_End'', PInt (if day today \<ge> 25 then 1 else 0)),
         (''Very_High_Governance_Risk'', PInt 0), (''Has_Controversy'', PInt 0),
         (''Poor_Governance'', PInt 0),
         (''Operating Cf_M'', ocf_m),
         (''Free Cf_M'', fcf_m),
         (''Debt_to_Equity'', d2e),
         (''ROE_%'', roe),
         (''Net_Profit_Margin_%'', npm),
         (''Volatility_20'', vol'),
         (''ROC_20'', roc20'),
         (''Egypt_FX_Crisis'', PInt 0), (''EGP_USD_Change_%'', PInt 0),
         (''Pandemic_Recession'', PInt 0),
         (''Environment_Score'', PInt 50), (''Social_Score'', PInt 50),
         (''Young_Company'', PInt 0), (''Low_Institutional_Ownership'', PInt 0),
         (''Month_x'', PInt (month today))])))))))))))))))))))))))"

definition calculate_all_metrics :: "snapshot \<Rightarrow> datetime \<Rightarrow> (string \<times> pyval) list option" where
  "calculate_all_metrics data today =
     (case metrics_body data today of Inl e \<Rightarrow> None | Inr m \<Rightarrow> Some m)"

text \<open>The value is the number 0 (the int 0 or the float 0.0).\<close>

definition py_eq0 :: "pyval \<Rightarrow> bool" where
  "py_eq0 v = (to_fl v = Inr (Fin 0))"

text \<open>A snapshot with empty frames, an empty info dict and no price history.\<close>

definition empty_data :: snapshot where
  "empty_data = \<lparr> balance_sheet = [], financials = [], cash_flow = [], info = Map.empty,
     history = [] \<rparr>"

text \<open>A clock reading.\<close>

definition sample_today :: datetime where
  "sample_today = \<lparr> year = 2025, month = 3, day = 26, hour = 9, minute = 30, second = 0 \<rparr>"

text \<open>A snapshot with sixteen daily bars whose close rises by one every day.\<close>

definition rising_data :: snapshot where
  "rising_data = empty_data \<lparr> history :=
     map (\<lambda>k. \<lparr> bar_open = real k, bar_high = real k + 1, bar_low = real k - 1,
                 bar_close = real k, bar_volume = 1000 \<rparr>) [10..<26] \<rparr>"

text \<open>
  The same snapshot with a cash flow statement whose operating cash flow line item is
  missing (NaN), and with an info dict that holds None for the total assets.
\<close>

definition nan_cash_flow_data :: snapshot where
  "nan_cash_flow_data =
     rising_data \<lparr> cash_flow := [[''Total Cash From Operating Activities'' \<mapsto> NaN]] \<rparr>"

definition none_assets_data :: snapshot where
  "none_assets_data = rising_data \<lparr> info := [''totalAssets'' \<mapsto> PNone] \<rparr>"

text \<open>The series under the rolling mean of line 673.\<close>

definition loss_raw :: "candle list \<Rightarrow> fl list" where
  "loss_raw hist =
     map fl_neg (s_where (\<lambda>x. fl_lt x (Fin 0)) (diff (column bar_close hist)) (Fin 0))"

section \<open>Attribution by category (shap_category_chart)\<close>

text \<open>
  The categories of lines 478 to 500, as the list of the dict's items in source order.
\<close>

definition FEATURE_CATEGORIES :: "(string \<times> string list) list" where
  "FEATURE_CATEGORIES =
     [(''Financial Health'',
       [''ROA_%'', ''Equity_Ratio'', ''Asset_Turnover'', ''OCF_to_Debt'', ''Altman_Z_Score'',
        ''Operating Cf_M'', ''Free Cf_M'', ''Debt_to_Equity'', ''ROE_%'', ''Net_Profit_Margin_%'']),
      (''Market & Price'',
       [''Market_Cap_USD'', ''Low'', ''Volume'', ''Daily_Return_%'', ''Price_Range_%'',
        ''True_Range'', ''Volatility_20'', ''ROC_20'', ''Death_Cross'', ''RSI_14'']),
      (''Oil & Global Macro'',
       [''Oil_Volatility_20D'', ''Oil_Below_60'', ''Oil_Below_40'',
        ''Brent_Change_%'', ''US_10Y'', ''VIX_Change_%'', ''Very_High_VIX'', ''Strong_Dollar'']),
      (''Regional Factors'',
       [''SAR_USD'', ''KWD_USD'', ''QAR_USD_Volatility_20D'', ''BHD_USD_Volatility_20D'',
        ''Gulf_Crisis_End'', ''Egypt_FX_Crisis'', ''EGP_USD_Change_%'', ''Pandemic_Recession'']),
      (''Governance & ESG'',
       [''Very_High_Governance_Risk'', ''Has_Controversy'', ''Poor_Governance'',
        ''Environment_Score'', ''Social_Score'', ''Young_Company'',
        ''Low_Institutional_Ownership'']),
      (''Timing'', [''Is_Month_End'', ''Month_x''])]"

text \<open>
  Line 810: the dict from feature name to position, built by a comprehension over
  enumerate(SELECTED_FEATURES), a later item overwriting an earlier one.
\<close>

definition feat_idx :: "string \<rightharpoonup> nat" where
  "feat_idx = fold (\<lambda>(i, f) m. m(f \<mapsto> i)) (enumerate 0 SELECTED_FEATURES) Map.empty"

text \<open>The inner comprehension of line 812: the positions of the names the dict knows.\<close>

definition category_indices :: "string list \<Rightarrow> nat list" where
  "category_indices flist = List.map_filter feat_idx flist"

text \<open>
  Indexing a numpy vector by a list of positions raises IndexError when one of them is out
  of bounds. The contributions are finite floats, read as exact reals, so that np.sum is
  the exact sum.
\<close>

definition np_take :: "real list \<Rightarrow> nat list \<Rightarrow> py_error + real list" where
  "np_take vals idxs =
     (if list_all (\<lambda>i. i < length vals) idxs then Inr (map (nth vals) idxs)
      else Inl IndexError)"

text \<open>A comprehension whose element expression can raise stops at the first raise.\<close>

fun map_result :: "('a \<Rightarrow> py_error + 'b) \<Rightarrow> 'a list \<Rightarrow> py_error + 'b list" where
  "map_result f [] = Inr []"
| "map_result f (x # xs) =
     and_then (f x) (\<lambda>y. and_then (map_result f xs) (\<lambda>ys. Inr (y # ys)))"

text \<open>Lines 811 to 814: the dict of the category sums, as the list of its items.\<close>

definition cat_vals :: "real list \<Rightarrow> py_error + (string \<times> real) list" where
  "cat_vals vals =
     map_result (\<lambda>(cat, flist).
         and_then (np_take vals (category_indices flist)) (\<lambda>picked.
           Inr (cat, sum_list picked)))
       FEATURE_CATEGORIES"

text \<open>
  The contribution of a feature in a vector aligned with the canonical order: the value
  at the position of its name.
\<close>

definition contribution :: "real list \<Rightarrow> string \<Rightarrow> real" where
  "contribution vals f =
     (case map_of (zip SELECTED_FEATURES vals) f of Some v \<Rightarrow> v | None \<Rightarrow> 0)"

definition category_table :: "(string \<times> nat list) list" where
  "category_table =
     [(''Financial Health'', [5, 6, 7, 8, 9, 30, 31, 32, 33, 34]),
      (''Market & Price'', [0, 1, 2, 3, 4, 11, 35, 36, 10, 12]),
      (''Oil & Global Macro'', [14, 15, 16, 17, 13, 18, 19, 20]),
      (''Regional Factors'', [21, 22, 23, 24, 25, 37, 38, 39]),
      (''Governance & ESG'', [27, 28, 29, 40, 41, 42, 43]),
      (''Timing'', [26, 44])]"

section \<open>Report export (main, lines 1360 to 1368)\<close>

text \<open>The display names of lines 430 to 476, as the list of the dict's items.\<close>

definition FEATURE_LABELS :: "(string \<times> string) list" where
  "FEATURE_LABELS =
     [(''Market_Cap_USD'', ''Company Size (Market Value)''),
      (''Low'', ''Daily Low Price''),
      (''Volume'', ''Trading Activity (Volume)''),
      (''Daily_Return_%'', ''Daily Price Change''),
      (''Price_Range_%'', ''Daily Price Spread''),
      (''ROA_%'', ''Return on Assets''),
      (''Equity_Ratio'', ''Equity Ratio''),
      (''Asset_Turnover'', ''Asset Efficiency''),
      (''OCF_to_Debt'', ''Cash Flow vs Debt Coverage''),
      (''Altman_Z_Score'', ''Financial Health Score''),
      (''Death_Cross'', ''Bearish Price Signal''),
      (''True_Range'', ''Daily Price Volatility''),
      (''RSI_14'', ''Price Momentum''),
      (''US_10Y'', ''US Interest Rate''),
      (''Oil_Volatility_20D'', ''Oil Price Stability''),
      (''Oil_Below_60'', ''Low Oil Price Indicator''),
      (''Oil_Below_40'', ''Very Low Oil Price Indicator''),
      (''Brent_Change_%'', ''Oil Price Change''),
      (''VIX_Change_%'', ''Market Uncertainty Change''),
      (''Very_High_VIX'', ''Extreme Market Uncertainty''),
      (''Strong_Dollar'', ''Strong US Dollar''),
      (''SAR_USD'', ''Saudi Riyal Rate''),
      (''KWD_USD'', ''Kuwaiti Dinar Rate''),
      (''QAR_USD_Volatility_20D'', ''Qatar Riyal Stability''),
      (''BHD_USD_Volatility_20D'', ''Bahraini Dinar Stability''),
      (''Gulf_Crisis_End'', ''Post-Gulf Crisis Period''),
      (''Is_Month_End'', ''Month-End Period''),
      (''Very_High_Governance_Risk'', ''High Governance Risk''),
      (''Has_Controversy'', ''Company Controversy''),
      (''Poor_Governance'', ''Governance Concerns''),
      (''Operating Cf_M'', ''Operating Cash Flow''),
      (''Free Cf_M'', ''Free Cash Flow''),
      (''Debt_to_Equity'', ''Debt Relative to Equity''),
      (''ROE_%'', ''Return on Equity''),
      (''Net_Profit_Margin_%'', ''Net Profit Margin''),
      (''Volatility_20'', ''Price Stability (20-Day)''),
      (''ROC_20'', ''Price Trend (20-Day)''),
      (''Egypt_FX_Crisis'', ''Egypt Currency Pressure''),
      (''EGP_USD_Change_%'', ''Egyptian Pound Change''),
      (''Pandemic_Recession'', ''Pandemic Period''),
      (''Environment_Score'', ''Environmental Score''),
      (''Social_Score'', ''Social Score''),
      (''Young_Company'', ''Early-Stage Company''),
      (''Low_Institutional_Ownership'', ''Low Institutional Ownership''),
      (''Month_x'', ''Month of Year'')]"

text \<open>FEATURE_LABELS.get(k, k).\<close>

definition feature_label :: "string \<Rightarrow> string" where
  "feature_label k = (case map_of FEATURE_LABELS k of Some l \<Rightarrow> l | None \<Rightarrow> k)"

text \<open>
  The format specification .4f. The value is rounded to a multiple of 1/10000, to the
  nearest one and on a tie to the one whose last digit is even; the result is written with
  a minus sign for a negative value, the decimal digits of the integer part, a point and
  four digits. NaN and the infinities are written nan, inf and -inf. The value is the
  exact real of the model; the sign of a zero is not modelled.
\<close>

definition digit_char :: "nat \<Rightarrow> char" where
  "digit_char d = ''0123456789'' ! d"

fun digits :: "nat \<Rightarrow> string" where
  "digits n = (if n < 10 then [digit_char n] else digits (n div 10) @ [digit_char (n mod 10)])"

definition round_half_even :: "real \<Rightarrow> int" where
  "round_half_even x =
     (let f = \<lfloor>x\<rfloor>; d = x - of_int f
      in if d < 1 / 2 then f else if 1 / 2 < d then f + 1 else if even f then f else f + 1)"

fun format_4f :: "fl \<Rightarrow> string" where
  "format_4f (Fin x) =
     (let q = nat (round_half_even (\<bar>x\<bar> * 10000))
      in (if x < 0 then ''-'' else []) @ digits (q div 10000) @ ''.'' @
         [digit_char (q div 1000 mod 10), digit_char (q div 100 mod 10),
          digit_char (q div 10 mod 10), digit_char (q mod 10)])"
| "format_4f PInf = ''inf''"
| "format_4f NInf = ''-inf''"
| "format_4f NaN = ''nan''"

text \<open>
  A value of the report dict: a str, or the object that was put there unchanged.
\<close>

datatype cell = Str string | Val pyval

text \<open>
  The conditional expression of line 1366: a float is formatted, any other value is kept.
\<close>

definition feature_cell :: "pyval \<Rightarrow> cell" where
  "feature_cell v = (case v of PFloat x \<Rightarrow> Str (format_4f x) | _ \<Rightarrow> Val v)"

text \<open>
  A dict as the list of its items in insertion order: setting a key that is present
  replaces its value in place, setting a new key appends it. A dict display or
  comprehension sets its items from left to right.
\<close>

fun dict_set :: "'k \<Rightarrow> 'v \<Rightarrow> ('k \<times> 'v) list \<Rightarrow> ('k \<times> 'v) list" where
  "dict_set k v [] = [(k, v)]"
| "dict_set k v ((k', v') # d) = (if k = k' then (k, v) # d else (k', v') # dict_set k v d)"

definition py_dict :: "('k \<times> 'v) list \<Rightarrow> ('k \<times> 'v) list" where
  "py_dict items = fold (\<lambda>(k, v) d. dict_set k v d) items []"

text \<open>
  The six identifying values are strings computed before line 1360 (the date is the text
  that strftime gives for the clock reading).
\<close>

record report_header =
  company :: string
  ticker :: string
  country :: string
  sector :: string
  period :: string
  date :: string

text \<open>The one row of the report (lines 1360 to 1368), as the dict that the DataFrame is built from.\<close>

definition report_row ::
    "report_header \<Rightarrow> int \<Rightarrow> real \<Rightarrow> string \<Rightarrow> (string \<times> pyval) list \<Rightarrow> (string \<times> cell) list" where
  "report_row h pred prob risk_level metrics =
     py_dict
       ([(''Company'', Str (company h)), (''Ticker'', Str (ticker h)),
         (''Country'', Str (country h)), (''Sector'', Str (sector h)),
         (''Period'', Str (period h)), (''Date'', Str (date h)),
         (''Result'', Str (if pred = 1 then ''Distressed'' else ''Healthy'')),
         (''Probability'', Str (format_4f (Fin prob))), (''Risk Level'', Str risk_level)]
        @ py_dict (map (\<lambda>(k, v). (feature_label k, feature_cell v)) metrics))"

text \<open>
  A text with exactly four decimal places: an optional minus sign, at least one digit, a
  point, and four digits.
\<close>

definition is_digit :: "char \<Rightarrow> bool" where
  "is_digit c = (c \<in> set ''0123456789'')"

definition four_decimals :: "string \<Rightarrow> bool" where
  "four_decimals s =
     (let n = length s; ip = take (n - 5) s;
          unsigned = (if ip \<noteq> [] \<and> hd ip = CHR ''-'' then tl ip else ip)
      in 5 < n \<and> s ! (n - 5) = CHR ''.'' \<and> list_all is_digit (drop (n - 4) s) \<and>
         unsigned \<noteq> [] \<and> list_all is_digit unsigned)"

definition sample_header :: report_header where
  "sample_header = \<lparr> company = ''Sample Company'', ticker = ''SMPL'', country = ''Egypt'',
     sector = ''Banks'', period = ''2 Years'', date = ''2025-03-26'' \<rparr>"

definition identifying_names :: "string list" where
  "identifying_names = [''Company'', ''Ticker'', ''Country'', ''Sector'', ''Period'', ''Date'',
     ''Result'', ''Probability'', ''Risk Level'']"

section \<open>Top attributions of the narrative (render_shap_narrative)\<close>

text \<open>The display names of a list of features (lines 804 to 805).\<close>

definition labels :: "string list \<Rightarrow> string list" where
  "labels features = map feature_label features"

text \<open>
  Line 946 sorts the absolute contributions with sort_values(ascending=False) and takes
  the index of the result. pandas sorts with kind='quicksort' unless told otherwise, and
  that algorithm does not fix the order of equal keys; so the index is an argument here,
  and what the call guarantees is the predicate below: the index is a permutation of the
  row numbers along which the keys do not increase. Contributions are finite floats, read as
  exact reals.
\<close>

definition is_desc_argsort :: "real list \<Rightarrow> nat list \<Rightarrow> bool" where
  "is_desc_argsort keys order \<longleftrightarrow>
     sort order = [0..<length keys] \<and> sorted_wrt (\<lambda>i j. keys ! j \<le> keys ! i) order"

text \<open>
  Lines 944 to 949: the frame of display names and contributions, reordered along the
  index, and the three selections. Building the frame raises when the number of
  contributions is not the number of names; that is the result None. The markdown text
  written from the three lists is not modelled.
\<close>

definition render_shap_narrative ::
    "nat list \<Rightarrow> real list \<Rightarrow> (string list \<times> string list \<times> string list) option" where
  "render_shap_narrative order shap_vals =
     (if length shap_vals \<noteq> length SELECTED_FEATURES then None
      else let df_abs = map (\<lambda>i. (labels SELECTED_FEATURES ! i, shap_vals ! i)) order;
               top_pos = map fst (take 3 (filter (\<lambda>(factor, shap). 0 < shap) df_abs));
               top_neg = map fst (take 3 (filter (\<lambda>(factor, shap). shap < 0) df_abs));
               top_all = map fst (take 1 df_abs)
           in Some (top_pos, top_neg, top_all))"

text \<open>
  The ranking the specification describes: by absolute contribution, largest first, equal
  ones in canonical order.
\<close>

definition stable_order :: "real list \<Rightarrow> nat list" where
  "stable_order vals = sort_key (\<lambda>i. - \<bar>vals ! i\<bar>) [0..<length vals]"

text \<open>
  Two contributions of the same size: the first two features both contribute 1, the others
  nothing; and an index that lists the second feature before the first.
\<close>

definition tie_vals :: "real list" where
  "tie_vals = [1, 1] @ replicate 43 0"

definition tie_order :: "nat list" where
  "tie_order = [1, 0] @ [2..<45]"

text \<open>Contributions of alternating sign whose sizes grow along the canonical order.\<close>

definition alternating_vals :: "real list" where
  "alternating_vals = map (\<lambda>i. if even i then real i + 1 else - real i - 1) [0..<45]"


section \<open>Auxiliary lemmas\<close>

lemma and_then_Inr_iff: "and_then r f = Inr v \<longleftrightarrow> (\<exists>x. r = Inr x \<and> f x = Inr v)"
  by (cases r) (simp_all add: and_then_def)

lemma and_then_Inl_iff:
  "and_then r f = Inl e \<longleftrightarrow> r = Inl e \<or> (\<exists>x. r = Inr x \<and> f x = Inl e)"
  by (cases r) (simp_all add: and_then_def)

lemma and_then_Inr [simp]: "and_then (Inr x) f = f x"
  by (simp add: and_then_def)

lemma and_then_Inl [simp]: "and_then (Inl e) f = Inl e"
  by (simp add: and_then_def)

subsection \<open>Which operations can raise\<close>

lemma to_fl_Inl: "to_fl v = Inl e \<longleftrightarrow> e = TypeError \<and> v = PNone"
  by (cases v) auto

lemma to_fl_num: "v \<noteq> PNone \<Longrightarrow> \<exists>x. to_fl v = Inr x"
  by (cases v) auto

lemma py_add_Inl: "py_add a b = Inl e \<longleftrightarrow> e = TypeError \<and> (a = PNone \<or> b = PNone)"
  by (cases a; cases b) auto

lemma py_sub_Inl: "py_sub a b = Inl e \<longleftrightarrow> e = TypeError \<and> (a = PNone \<or> b = PNone)"
  by (cases a; cases b) auto

lemma py_mul_Inl: "py_mul a b = Inl e \<longleftrightarrow> e = TypeError \<and> (a = PNone \<or> b = PNone)"
  by (cases a; cases b) auto

lemma py_add_Inr: "py_add a b = Inr v \<Longrightarrow> v \<noteq> PNone"
  by (cases a; cases b) auto

lemma py_sub_Inr: "py_sub a b = Inr v \<Longrightarrow> v \<noteq> PNone"
  by (cases a; cases b) auto

lemma py_mul_Inr: "py_mul a b = Inr v \<Longrightarrow> v \<noteq> PNone"
  by (cases a; cases b) auto

lemma py_abs_Inl: "py_abs a = Inl e \<longleftrightarrow> e = TypeError \<and> a = PNone"
  by (cases a) auto

lemma py_abs_Inr: "py_abs a = Inr v \<Longrightarrow> v \<noteq> PNone"
  by (cases a) auto

lemma py_gt_Inl: "py_gt a b = Inl e \<longleftrightarrow> e = TypeError \<and> (a = PNone \<or> b = PNone)"
  by (cases a; cases b) (auto simp: py_gt_def)

lemma py_gt0_True: "py_gt d (PInt 0) = Inr True \<Longrightarrow> d \<noteq> PNone \<and> to_fl d \<noteq> Inr (Fin 0)"
  by (cases d) (auto simp: py_gt_def)

lemma py_truediv_Inl:
  "py_truediv a b = Inl e \<longleftrightarrow>
     (e = TypeError \<and> (a = PNone \<or> b = PNone)) \<or>
     (e = ZeroDivisionError \<and> a \<noteq> PNone \<and> to_fl b = Inr (Fin 0))"
  by (cases a; cases b) (auto simp: py_truediv_def)

lemma py_truediv_Inr: "py_truediv a b = Inr v \<Longrightarrow> \<exists>x. v = PFloat x"
  by (cases a; cases b) (auto simp: py_truediv_def split: if_splits)

lemma guarded_ratio_Inl:
  "guarded_ratio n d = Inl e \<longleftrightarrow>
     e = TypeError \<and> (d = PNone \<or> (py_gt d (PInt 0) = Inr True \<and> n = PNone))"
  by (cases d; cases n)
     (auto simp: guarded_ratio_def py_gt_def py_truediv_def and_then_Inl_iff)

lemma guarded_ratio_Inr: "guarded_ratio n d = Inr v \<Longrightarrow> v \<noteq> PNone"
  by (auto simp: guarded_ratio_def and_then_Inr_iff split: if_splits dest: py_truediv_Inr)

lemma guarded_pct_Inl:
  "guarded_pct n d = Inl e \<longleftrightarrow>
     e = TypeError \<and> (d = PNone \<or> (py_gt d (PInt 0) = Inr True \<and> n = PNone))"
  by (cases d; cases n)
     (auto simp: guarded_pct_def py_gt_def py_truediv_def and_then_Inl_iff)

lemma guarded_pct_Inr: "guarded_pct n d = Inr v \<Longrightarrow> v \<noteq> PNone"
  by (auto simp: guarded_pct_def and_then_Inr_iff split: if_splits dest: py_mul_Inr)

lemma weighted_Inl:
  assumes "py_gt d (PInt 0) = Inr True"
  shows "weighted k n d = Inl e \<longleftrightarrow> e = TypeError \<and> n = PNone"
  using assms
  by (cases d; cases n) (auto simp: weighted_def py_gt_def py_truediv_def and_then_Inl_iff)

lemma weighted_Inr: "weighted k n d = Inr v \<Longrightarrow> v \<noteq> PNone"
  by (auto simp: weighted_def and_then_Inr_iff dest: py_truediv_Inr)

subsection \<open>Positional reads under their guards\<close>

lemma iloc_last: "xs \<noteq> [] \<Longrightarrow> iloc xs (- 1) = Inr (last xs)"
  by (cases xs rule: rev_cases) (auto simp: iloc_def nth_append)

lemma iloc_from_end:
  assumes "0 < k" "k \<le> length xs"
  shows "iloc xs (- int k) = Inr (xs ! (length xs - k))"
proof -
  have "nat (int (length xs) - int k) = length xs - k" using assms by linarith
  then show ?thesis using assms by (simp add: iloc_def)
qed

lemma length_column [simp]: "length (column f hist) = length hist"
  by (simp add: column_def)

lemma length_shift1 [simp]: "length (shift1 xs) = length xs"
  by (cases xs) (auto simp: shift1_def)

lemma length_s_sub [simp]: "length (s_sub xs ys) = min (length xs) (length ys)"
  by (simp add: s_sub_def)

lemma length_s_div [simp]: "length (s_div xs ys) = min (length xs) (length ys)"
  by (simp add: s_div_def)

lemma length_diff [simp]: "length (diff xs) = length xs"
  by (simp add: diff_def)

lemma length_rolling_mean [simp]: "length (rolling_mean w xs) = length xs"
  by (simp add: rolling_mean_def)

lemma length_s_where [simp]: "length (s_where c xs other) = length xs"
  by (simp add: s_where_def)

lemma length_s_replace [simp]: "length (s_replace a b xs) = length xs"
  by (simp add: s_replace_def)

lemma length_rsi_s [simp]: "length (rsi_s hist) = length hist"
  by (simp add: rsi_s_def Let_def)

lemma length_true_range [simp]: "length (true_range hist) = length hist"
  by (simp add: true_range_def Let_def)

lemma last_column: "hist \<noteq> [] \<Longrightarrow> last (column f hist) = Fin (f (last hist))"
  by (simp add: column_def last_map)

lemma lat_ret_eq:
  "lat_ret hist =
     Inr (if rets hist \<noteq> [] then PFloat (fl_mul (last (rets hist)) (Fin 100)) else PInt 0)"
  by (simp add: lat_ret_def iloc_last)

lemma column_nonempty [simp]: "column f hist = [] \<longleftrightarrow> hist = []"
  by (simp add: column_def)

lemma pr_pct_eq:
  "pr_pct hist =
     Inr (PFloat (if hist \<noteq> [] \<and> 0 < bar_open (last hist)
        then Fin ((bar_high (last hist) - bar_low (last hist)) / bar_open (last hist) * 100)
        else Fin 0))"
  by (auto simp: pr_pct_def iloc_last last_column fl_sub_def)

lemma tr_eq:
  "tr hist = Inr (PFloat (if length hist > 1 then last (true_range hist) else Fin 0))"
proof (cases "length hist > 1")
  case True
  then have "true_range hist \<noteq> []" by (metis length_true_range list.size(3) not_less_zero)
  with True show ?thesis by (simp add: tr_def iloc_last)
next
  case False
  then show ?thesis by (simp add: tr_def)
qed

lemma rolling_mean_nonempty [simp]: "rolling_mean w xs = [] \<longleftrightarrow> xs = []"
  by (simp add: rolling_mean_def)

lemma dc_eq:
  "dc hist =
     Inr (PInt (if hist \<noteq> [] \<and> last (rolling_mean 50 (column bar_close hist)) \<noteq> NaN \<and>
                   last (rolling_mean 200 (column bar_close hist)) \<noteq> NaN \<and>
                   fl_lt (last (rolling_mean 50 (column bar_close hist)))
                         (last (rolling_mean 200 (column bar_close hist)))
                then 1 else 0))"
  by (auto simp: dc_def Let_def iloc_last)

lemma rsi_s_nonempty [simp]: "rsi_s hist = [] \<longleftrightarrow> hist = []"
  by (metis length_rsi_s length_0_conv)

lemma rsi14_eq:
  "rsi14 hist =
     Inr (if hist \<noteq> [] \<and> last (rsi_s hist) \<noteq> NaN then PFloat (last (rsi_s hist)) else PInt 50)"
  by (auto simp: rsi14_def iloc_last)

lemma roc20_eq:
  "roc20 hist =
     Inr (PFloat (if length hist > 20 \<and> bar_close (hist ! (length hist - 21)) \<noteq> 0
        then Fin ((bar_close (last hist) - bar_close (hist ! (length hist - 21)))
                    / bar_close (hist ! (length hist - 21)) * 100)
        else Fin 0))"
proof (cases "length hist > 20")
  case True
  then have ne: "hist \<noteq> []" by auto
  have k: "iloc (column bar_close hist) (- 21) = Inr (column bar_close hist ! (length hist - 21))"
    using iloc_from_end [of 21 "column bar_close hist"] True by simp
  have n: "column bar_close hist ! (length hist - 21) = Fin (bar_close (hist ! (length hist - 21)))"
    using True by (simp add: column_def)
  show ?thesis
    using True ne by (simp add: roc20_def k n iloc_last last_column fl_sub_def)
next
  case False
  then show ?thesis by (simp add: roc20_def)
qed

lemma low_value_eq:
  "low_value hist = Inr (if hist \<noteq> [] then PFloat (Fin (bar_low (last hist))) else PInt 0)"
  by (simp add: low_value_def iloc_last last_column)

lemma gv_num: "dflt \<noteq> PNone \<Longrightarrow> gv s k dflt \<noteq> PNone"
  by (simp add: gv_def split: option.splits)

lemma debt_total: "\<exists>v. debt data = Inr v \<and> v \<noteq> PNone"
proof -
  have a: "gv (lbs data) ''Long Term Debt'' (PInt 0) \<noteq> PNone"
    and b: "gv (lbs data) ''Short Long Term Debt'' (PInt 0) \<noteq> PNone"
    and c: "gv (lbs data) ''Total Debt'' (PInt 0) \<noteq> PNone"
    by (simp_all add: gv_num)
  obtain v where v: "py_add (gv (lbs data) ''Long Term Debt'' (PInt 0))
      (gv (lbs data) ''Short Long Term Debt'' (PInt 0)) = Inr v"
    using a b by (metis py_add_Inl sum.exhaust_sel sum.collapse(1) old.sum.exhaust)
  then have "v \<noteq> PNone" by (rule py_add_Inr)
  with v c show ?thesis by (simp add: debt_def Let_def)
qed

lemma fcf_total: "\<exists>v. fcf data = Inr v \<and> v \<noteq> PNone"
proof -
  have o: "ocf data \<noteq> PNone" and c: "capex data \<noteq> PNone"
    and f: "gv (lcf data) ''Free Cash Flow'' (PInt 0) \<noteq> PNone"
    by (simp_all add: ocf_def capex_def gv_num)
  obtain a where a: "py_abs (capex data) = Inr a"
    using c by (cases "capex data") auto
  then have an: "a \<noteq> PNone" by (rule py_abs_Inr)
  obtain v where v: "py_sub (ocf data) a = Inr v"
    using o an by (metis py_sub_Inl old.sum.exhaust)
  then have "v \<noteq> PNone" by (rule py_sub_Inr)
  with v a f show ?thesis by (simp add: fcf_def Let_def)
qed

subsection \<open>The health score\<close>

lemma altman_z_Inl:
  assumes "altman_z wc a r e q d rv = Inl err"
  shows "err = TypeError"
  using assms
  by (auto simp: altman_z_def and_then_Inl_iff py_gt_Inl py_add_Inl weighted_Inl
           split: if_splits)

lemma altman_z_guard:
  assumes "py_gt a (PInt 0) = Inr False"
  shows "altman_z wc a r e q d rv = Inr (PFloat (Fin 0))"
  using assms by (simp add: altman_z_def)

lemma Inr_or_Inl: "(\<exists>v. r = Inr v) \<or> (\<exists>e. r = Inl e)"
  by (cases r) auto

lemma py_gt_total: "a \<noteq> PNone \<Longrightarrow> b \<noteq> PNone \<Longrightarrow> \<exists>c. py_gt a b = Inr c"
  using Inr_or_Inl [of "py_gt a b"] by (auto simp: py_gt_Inl)

lemma py_add_total: "a \<noteq> PNone \<Longrightarrow> b \<noteq> PNone \<Longrightarrow> \<exists>v. py_add a b = Inr v \<and> v \<noteq> PNone"
  using Inr_or_Inl [of "py_add a b"] by (auto simp: py_add_Inl dest: py_add_Inr)

lemma py_sub_total: "a \<noteq> PNone \<Longrightarrow> b \<noteq> PNone \<Longrightarrow> \<exists>v. py_sub a b = Inr v \<and> v \<noteq> PNone"
  using Inr_or_Inl [of "py_sub a b"] by (auto simp: py_sub_Inl dest: py_sub_Inr)

lemma weighted_total:
  assumes "py_gt d (PInt 0) = Inr True" "n \<noteq> PNone"
  shows "\<exists>v. weighted k n d = Inr v \<and> v \<noteq> PNone"
  using Inr_or_Inl [of "weighted k n d"] assms
  by (auto simp: weighted_Inl dest: weighted_Inr)

lemma guarded_ratio_total:
  assumes "n \<noteq> PNone" "d \<noteq> PNone"
  shows "\<exists>v. guarded_ratio n d = Inr v \<and> v \<noteq> PNone"
  using Inr_or_Inl [of "guarded_ratio n d"] assms
  by (auto simp: guarded_ratio_Inl dest: guarded_ratio_Inr)

lemma guarded_pct_total:
  assumes "n \<noteq> PNone" "d \<noteq> PNone"
  shows "\<exists>v. guarded_pct n d = Inr v \<and> v \<noteq> PNone"
  using Inr_or_Inl [of "guarded_pct n d"] assms
  by (auto simp: guarded_pct_Inl dest: guarded_pct_Inr)

lemma altman_z_total:
  assumes "wc \<noteq> PNone" "a \<noteq> PNone" "r \<noteq> PNone" "e \<noteq> PNone" "q \<noteq> PNone" "d \<noteq> PNone"
    "rv \<noteq> PNone"
  shows "\<exists>v. altman_z wc a r e q d rv = Inr v \<and> v \<noteq> PNone"
proof -
  obtain pos where pos: "py_gt a (PInt 0) = Inr pos"
    using py_gt_total [of a "PInt 0"] assms by auto
  show ?thesis
  proof (cases pos)
    case False
    with pos show ?thesis by (simp add: altman_z_def)
  next
    case True
    with pos have p: "py_gt a (PInt 0) = Inr True" by simp
    obtain t1 where t1: "weighted 1.2 wc a = Inr t1" "t1 \<noteq> PNone"
      using weighted_total [OF p] assms by blast
    obtain t2 where t2: "weighted 1.4 r a = Inr t2" "t2 \<noteq> PNone"
      using weighted_total [OF p] assms by blast
    obtain s2 where s2: "py_add t1 t2 = Inr s2" "s2 \<noteq> PNone"
      using py_add_total t1 t2 by blast
    obtain t3 where t3: "weighted 3.3 e a = Inr t3" "t3 \<noteq> PNone"
      using weighted_total [OF p] assms by blast
    obtain s3 where s3: "py_add s2 t3 = Inr s3" "s3 \<noteq> PNone"
      using py_add_total s2 t3 by blast
    obtain dpos where dpos: "py_gt d (PInt 0) = Inr dpos"
      using py_gt_total [of d "PInt 0"] assms by auto
    obtain t4 where t4: "(if dpos then weighted 0.6 q d else Inr (PInt 0)) = Inr t4" "t4 \<noteq> PNone"
      using weighted_total [of d q "0.6"] dpos assms by (cases dpos) auto
    obtain s4 where s4: "py_add s3 t4 = Inr s4" "s4 \<noteq> PNone"
      using py_add_total s3 t4 by blast
    obtain t5 where t5: "weighted 1.0 rv a = Inr t5" "t5 \<noteq> PNone"
      using weighted_total [OF p] assms by blast
    obtain v where v: "py_add s4 t5 = Inr v" "v \<noteq> PNone"
      using py_add_total s4 t5 by blast
    show ?thesis
      using p t1 t2 s2 t3 s3 dpos t4 s4 t5 v by (simp add: altman_z_def)
  qed
qed

subsection \<open>When the extraction returns\<close>

lemma fundamentals_num:
  "curr_a d \<noteq> PNone" "curr_l d \<noteq> PNone" "retained d \<noteq> PNone" "net_inc d \<noteq> PNone"
  "revenue d \<noteq> PNone" "ebit d \<noteq> PNone" "ocf d \<noteq> PNone" "capex d \<noteq> PNone"
  by (simp_all add: curr_a_def curr_l_def retained_def net_inc_def revenue_def ebit_def
        ocf_def capex_def gv_num)

lemma daily_return_value_total: "v \<noteq> PNone \<Longrightarrow> \<exists>x. daily_return_value v = Inr x \<and> x \<noteq> PNone"
  by (cases v) (auto simp: daily_return_value_def)

lemma volatility_value_total: "v \<noteq> PNone \<Longrightarrow> \<exists>x. volatility_value v = Inr x \<and> x \<noteq> PNone"
  by (cases v) (auto simp: volatility_value_def)

lemma vol_20_num: "vol_20 hist \<noteq> PNone"
  by (simp add: vol_20_def)

lemma per_million_total: "v \<noteq> PNone \<Longrightarrow> \<exists>x. py_truediv v (PFloat (Fin 1000000)) = Inr (PFloat x)"
  by (cases v) (auto simp: py_truediv_def)

lemma and_then_weak_cong: "r = r' \<Longrightarrow> and_then r f = and_then r' f"
  by simp

lemma market_total:
  "\<exists>v. lat_ret hist = Inr v \<and> v \<noteq> PNone"
  "\<exists>v. pr_pct hist = Inr v \<and> v \<noteq> PNone"
  "\<exists>v. tr hist = Inr v \<and> v \<noteq> PNone"
  "\<exists>v. dc hist = Inr v \<and> v \<noteq> PNone"
  "\<exists>v. rsi14 hist = Inr v \<and> v \<noteq> PNone"
  "\<exists>v. roc20 hist = Inr v \<and> v \<noteq> PNone"
  "\<exists>v. low_value hist = Inr v \<and> v \<noteq> PNone"
  by (simp_all add: lat_ret_eq pr_pct_eq tr_eq dc_eq rsi14_eq roc20_eq low_value_eq)

lemma metrics_body_total:
  assumes a: "assets data \<noteq> PNone" and q: "equity data \<noteq> PNone"
  shows "\<exists>m. metrics_body data today = Inr m"
proof -
  note n = fundamentals_num [of data]
  obtain debt' where d: "debt data = Inr debt'" "debt' \<noteq> PNone" using debt_total [of data] by auto
  obtain fcf' where f: "fcf data = Inr fcf'" "fcf' \<noteq> PNone" using fcf_total [of data] by auto
  obtain lr where lr: "lat_ret (history data) = Inr lr" "lr \<noteq> PNone"
    using market_total(1) [of "history data"] by auto
  obtain pr where pr: "pr_pct (history data) = Inr pr" using market_total(2) [of "history data"] by auto
  obtain tr' where tr: "tr (history data) = Inr tr'" using market_total(3) [of "history data"] by auto
  obtain dc' where dc: "dc (history data) = Inr dc'" using market_total(4) [of "history data"] by auto
  obtain rsi where rsi: "rsi14 (history data) = Inr rsi" using market_total(5) [of "history data"] by auto
  obtain roc where roc: "roc20 (history data) = Inr roc" using market_total(6) [of "history data"] by auto
  obtain low' where low: "low_value (history data) = Inr low'" using market_total(7) [of "history data"] by auto
  obtain eq_r where 1: "guarded_ratio (equity data) (assets data) = Inr eq_r"
    using guarded_ratio_total [OF q a] by auto
  obtain at' where 2: "guarded_ratio (revenue data) (assets data) = Inr at'"
    using guarded_ratio_total [OF n(5) a] by auto
  obtain o2d where 3: "guarded_ratio (ocf data) debt' = Inr o2d"
    using guarded_ratio_total [OF n(7) d(2)] by auto
  obtain d2e where 4: "guarded_ratio debt' (equity data) = Inr d2e"
    using guarded_ratio_total [OF d(2) q] by auto
  obtain roe where 5: "guarded_pct (net_inc data) (equity data) = Inr roe"
    using guarded_pct_total [OF n(4) q] by auto
  obtain roa where 6: "guarded_pct (net_inc data) (assets data) = Inr roa"
    using guarded_pct_total [OF n(4) a] by auto
  obtain npm where 7: "guarded_pct (net_inc data) (revenue data) = Inr npm"
    using guarded_pct_total [OF n(4) n(5)] by auto
  obtain wc where 8: "py_sub (curr_a data) (curr_l data) = Inr wc" and wcn: "wc \<noteq> PNone"
    using py_sub_total [OF n(1) n(2)] by auto
  obtain z where 9: "altman_z wc (assets data) (retained data) (ebit data) (equity data) debt'
      (revenue data) = Inr z"
    using altman_z_total [OF wcn a n(3) n(6) q d(2) n(5)] by auto
  obtain daily where 10: "daily_return_value lr = Inr daily"
    using daily_return_value_total [OF lr(2)] by auto
  obtain ocf_m where 11: "py_truediv (ocf data) (PFloat (Fin 1000000)) = Inr ocf_m"
    using per_million_total [OF n(7)] by auto
  obtain fcf_m where 12: "py_truediv fcf' (PFloat (Fin 1000000)) = Inr fcf_m"
    using per_million_total [OF f(2)] by auto
  obtain vol where 13: "volatility_value (vol_20 (history data)) = Inr vol"
    using volatility_value_total [OF vol_20_num] by auto
  show ?thesis
    by (simp add: metrics_body_def Let_def d(1) f(1) lr(1) pr tr dc rsi roc low
          1 2 3 4 5 6 7 8 9 10 11 12 13 cong: and_then_weak_cong)
qed

lemma metrics_body_None:
  assumes "assets data = PNone \<or> equity data = PNone"
  shows "metrics_body data today = Inl TypeError"
proof -
  note n = fundamentals_num [of data]
  obtain debt' where d: "debt data = Inr debt'" and dn: "debt' \<noteq> PNone"
    using debt_total [of data] by auto
  obtain fcf' where f: "fcf data = Inr fcf'" using fcf_total [of data] by auto
  obtain lr where lr: "lat_ret (history data) = Inr lr" using market_total(1) [of "history data"] by auto
  obtain pr where pr: "pr_pct (history data) = Inr pr" using market_total(2) [of "history data"] by auto
  obtain tr' where tr: "tr (history data) = Inr tr'" using market_total(3) [of "history data"] by auto
  obtain dc' where dc: "dc (history data) = Inr dc'" using market_total(4) [of "history data"] by auto
  obtain rsi where rsi: "rsi14 (history data) = Inr rsi" using market_total(5) [of "history data"] by auto
  obtain roc where roc: "roc20 (history data) = Inr roc" using market_total(6) [of "history data"] by auto
  note market = lr pr tr dc rsi roc
  show ?thesis
  proof (cases "assets data = PNone")
    case True
    then have "guarded_ratio (equity data) (assets data) = Inl TypeError"
      by (simp add: guarded_ratio_Inl)
    then show ?thesis
      by (simp add: metrics_body_def Let_def d f market cong: and_then_weak_cong)
  next
    case False
    with assms have q: "equity data = PNone" by simp
    have 4: "guarded_ratio debt' (equity data) = Inl TypeError"
      using q by (simp add: guarded_ratio_Inl)
    obtain at' where 2: "guarded_ratio (revenue data) (assets data) = Inr at'"
      using guarded_ratio_total [OF n(5) False] by auto
    obtain o2d where 3: "guarded_ratio (ocf data) debt' = Inr o2d"
      using guarded_ratio_total [OF n(7) dn] by auto
    show ?thesis
    proof (cases "guarded_ratio (equity data) (assets data)")
      case (Inl e)
      then have "e = TypeError" by (simp add: guarded_ratio_Inl)
      with Inl show ?thesis
        by (simp add: metrics_body_def Let_def d f market cong: and_then_weak_cong)
    next
      case (Inr eq_r)
      then show ?thesis
        by (simp add: metrics_body_def Let_def d f market 2 3 4 cong: and_then_weak_cong)
    qed
  qed
qed

lemma metrics_body_Inl_iff:
  "metrics_body data today = Inl e \<longleftrightarrow>
     e = TypeError \<and> (assets data = PNone \<or> equity data = PNone)"
proof (cases "assets data = PNone \<or> equity data = PNone")
  case True
  then have "metrics_body data today = Inl TypeError" by (rule metrics_body_None)
  with True show ?thesis by auto
next
  case False
  then obtain m where "metrics_body data today = Inr m"
    using metrics_body_total [of data today] by auto
  with False show ?thesis by simp
qed

lemma calculate_all_metrics_None_iff:
  "calculate_all_metrics data today = None \<longleftrightarrow> assets data = PNone \<or> equity data = PNone"
proof (cases "metrics_body data today")
  case (Inl e)
  then show ?thesis
    using metrics_body_Inl_iff [of data today e] by (simp add: calculate_all_metrics_def)
next
  case (Inr m)
  then have "\<not> (assets data = PNone \<or> equity data = PNone)"
    using metrics_body_None [of data today] by auto
  with Inr show ?thesis by (simp add: calculate_all_metrics_def)
qed

lemma py_gt0_eq0: "py_eq0 v \<Longrightarrow> py_gt v (PInt 0) = Inr False"
  by (cases v) (auto simp: py_eq0_def py_gt_def)

lemma guarded_ratio_eq0: "py_eq0 d \<Longrightarrow> guarded_ratio n d = Inr (PInt 0)"
  by (simp add: guarded_ratio_def py_gt0_eq0)

lemma guarded_pct_eq0: "py_eq0 d \<Longrightarrow> guarded_pct n d = Inr (PInt 0)"
  by (simp add: guarded_pct_def py_gt0_eq0)

lemma altman_z_eq0: "py_eq0 a \<Longrightarrow> altman_z wc a r e q d rv = Inr (PFloat (Fin 0))"
  by (simp add: altman_z_def py_gt0_eq0)

lemma metrics_body_features:
  assumes "metrics_body data today = Inr m"
  shows "\<exists>debt' wc.
     debt data = Inr debt' \<and> py_sub (curr_a data) (curr_l data) = Inr wc \<and>
     Inr (the (map_of m ''Equity_Ratio'')) = guarded_ratio (equity data) (assets data) \<and>
     Inr (the (map_of m ''Asset_Turnover'')) = guarded_ratio (revenue data) (assets data) \<and>
     Inr (the (map_of m ''OCF_to_Debt'')) = guarded_ratio (ocf data) debt' \<and>
     Inr (the (map_of m ''Debt_to_Equity'')) = guarded_ratio debt' (equity data) \<and>
     Inr (the (map_of m ''ROE_%'')) = guarded_pct (net_inc data) (equity data) \<and>
     Inr (the (map_of m ''ROA_%'')) = guarded_pct (net_inc data) (assets data) \<and>
     Inr (the (map_of m ''Net_Profit_Margin_%'')) = guarded_pct (net_inc data) (revenue data) \<and>
     Inr (the (map_of m ''Altman_Z_Score'')) =
       altman_z wc (assets data) (retained data) (ebit data) (equity data) debt' (revenue data)"
  using assms
  by (auto simp: metrics_body_def Let_def and_then_Inr_iff)

lemma metrics_body_keys:
  assumes "metrics_body data today = Inr m"
  shows "map fst m = SELECTED_FEATURES"
  using assms
  by (auto simp: metrics_body_def Let_def and_then_Inr_iff SELECTED_FEATURES_def)

lemma map_of_the:
  assumes "map fst m = ks" "k \<in> set ks"
  shows "map_of m k = Some (the (map_of m k))"
proof -
  have "k \<in> fst ` set m" using assms by (metis set_map)
  then show ?thesis by (metis domIff dom_map_of_conv_image_fst option.collapse)
qed

lemmas fundamentals_defs =
  lbs_def lfin_def lcf_def latest_def gv_def info_get_def assets_def equity_def curr_a_def
  curr_l_def retained_def debt_def net_inc_def revenue_def ebit_def ocf_def capex_def fcf_def
  mkt_cap_def

lemmas ratio_defs = guarded_ratio_def guarded_pct_def weighted_def altman_z_def py_gt_def
  py_truediv_def

lemma rets_Nil [simp]: "rets [] = []"
  by (simp add: rets_def pct_change_def column_def s_div_def dropna_def)

lemma empty_history:
  "lat_ret [] = Inr (PInt 0)" "pr_pct [] = Inr (PFloat (Fin 0))" "tr [] = Inr (PFloat (Fin 0))"
  "dc [] = Inr (PInt 0)" "rsi14 [] = Inr (PInt 50)" "roc20 [] = Inr (PFloat (Fin 0))"
  "low_value [] = Inr (PInt 0)" "volume_value [] = PInt 0" "vol_20 [] = PInt 0"
  by (simp_all add: lat_ret_eq pr_pct_eq tr_eq dc_eq rsi14_eq roc20_eq low_value_eq
        volume_value_def vol_20_def)

lemma metrics_body_empty:
  "metrics_body empty_data today =
     Inr [(''Market_Cap_USD'', PInt 0), (''Low'', PInt 0), (''Volume'', PInt 0),
       (''Daily_Return_%'', PInt 0), (''Price_Range_%'', PFloat (Fin 0)), (''ROA_%'', PInt 0),
       (''Equity_Ratio'', PInt 0), (''Asset_Turnover'', PInt 0), (''OCF_to_Debt'', PInt 0),
       (''Altman_Z_Score'', PFloat (Fin 0)), (''Death_Cross'', PInt 0),
       (''True_Range'', PFloat (Fin 0)), (''RSI_14'', PInt 50),
       (''US_10Y'', PInt 0), (''Oil_Volatility_20D'', PInt 0), (''Oil_Below_60'', PInt 0),
       (''Oil_Below_40'', PInt 0), (''Brent_Change_%'', PInt 0), (''VIX_Change_%'', PInt 0),
       (''Very_High_VIX'', PInt 0), (''Strong_Dollar'', PInt 0), (''SAR_USD'', PInt 0),
       (''KWD_USD'', PInt 0), (''QAR_USD_Volatility_20D'', PInt 0),
       (''BHD_USD_Volatility_20D'', PInt 0), (''Gulf_Crisis_End'', PInt 0),
       (''Is_Month_End'', PInt (if day today \<ge> 25 then 1 else 0)),
       (''Very_High_Governance_Risk'', PInt 0), (''Has_Controversy'', PInt 0),
       (''Poor_Governance'', PInt 0), (''Operating Cf_M'', PFloat (Fin 0)),
       (''Free Cf_M'', PFloat (Fin 0)), (''Debt_to_Equity'', PInt 0), (''ROE_%'', PInt 0),
       (''Net_Profit_Margin_%'', PInt 0), (''Volatility_20'', PFloat (Fin 0)),
       (''ROC_20'', PFloat (Fin 0)), (''Egypt_FX_Crisis'', PInt 0),
       (''EGP_USD_Change_%'', PInt 0), (''Pandemic_Recession'', PInt 0),
       (''Environment_Score'', PInt 50), (''Social_Score'', PInt 50), (''Young_Company'', PInt 0),
       (''Low_Institutional_Ownership'', PInt 0), (''Month_x'', PInt (month today))]"
  by (simp add: metrics_body_def empty_data_def fundamentals_defs ratio_defs empty_history
        daily_return_value_def volatility_value_def
        cong: and_then_weak_cong)

lemma length_SELECTED_FEATURES: "length SELECTED_FEATURES = 45"
  by (simp add: SELECTED_FEATURES_def)

lemma distinct_SELECTED_FEATURES: "distinct SELECTED_FEATURES"
  by (simp add: SELECTED_FEATURES_def)

lemma metrics_body_ocf_m:
  assumes "metrics_body data today = Inr m"
  shows "py_truediv (ocf data) (PFloat (Fin 1000000)) = Inr (the (map_of m ''Operating Cf_M''))"
  using assms
  by (auto simp: metrics_body_def Let_def and_then_Inr_iff)

lemma calculate_Some_iff:
  "calculate_all_metrics data today = Some m \<longleftrightarrow> metrics_body data today = Inr m"
  by (simp add: calculate_all_metrics_def split: sum.splits)

lemma last_rolling_mean: "xs \<noteq> [] \<Longrightarrow> last (rolling_mean w xs) = window_mean w xs"
  by (simp add: rolling_mean_def last_map last_upt)

lemma last_zip_map:
  assumes "length xs = length ys" "xs \<noteq> []"
  shows "last (map f (zip xs ys)) = f (last xs, last ys)"
proof -
  have "zip xs ys \<noteq> []" using assms by (cases xs; cases ys) auto
  then have "last (map f (zip xs ys)) = f (last (zip xs ys))" by (simp add: last_map)
  also have "last (zip xs ys) = (last xs, last ys)"
  proof -
    have "ys \<noteq> []" using assms by auto
    then show ?thesis
      using assms \<open>zip xs ys \<noteq> []\<close> by (simp add: last_conv_nth)
  qed
  finally show ?thesis .
qed

lemma shift1_nth:
  "i < length xs \<Longrightarrow> shift1 xs ! i = (if i = 0 then NaN else xs ! (i - 1))"
  by (cases i) (auto simp: shift1_def nth_butlast)

lemma diff_column_nth:
  assumes "i < length hist"
  shows "diff (column f hist) ! i =
     (if i = 0 then NaN else Fin (f (hist ! i) - f (hist ! (i - 1))))"
  using assms by (auto simp: diff_def s_sub_def shift1_nth column_def fl_sub_def)

lemma foldl_fl_add_zero: "foldl fl_add (Fin 0) (replicate k (Fin 0)) = Fin 0"
  by (induction k) simp_all

lemma dropna_replicate_Fin [simp]: "dropna (replicate k (Fin x)) = replicate k (Fin x)"
  by (simp add: dropna_def)

lemma window_mean_zeros:
  assumes "tail w ys = replicate k (Fin 0)"
  shows "window_mean w ys = NaN \<or> window_mean w ys = Fin 0"
proof (cases "k = 0")
  case True
  with assms show ?thesis by (simp add: window_mean_def Let_def s_mean_def dropna_def)
next
  case False
  then show ?thesis
    using assms
    by (simp add: window_mean_def Let_def s_mean_def s_sum_def foldl_fl_add_zero)
qed

lemma loss_raw_nth:
  assumes "i < length hist"
  shows "loss_raw hist ! i =
     (if 0 < i \<and> bar_close (hist ! i) < bar_close (hist ! (i - 1))
      then Fin (bar_close (hist ! (i - 1)) - bar_close (hist ! i)) else Fin 0)"
  using assms by (auto simp: loss_raw_def s_where_def diff_column_nth)

lemma length_loss_raw [simp]: "length (loss_raw hist) = length hist"
  by (simp add: loss_raw_def)

lemma tail_loss_raw_zeros:
  assumes "\<forall>i. 0 < i \<and> i < length hist \<and> length hist \<le> i + 14 \<longrightarrow>
             bar_close (hist ! (i - 1)) \<le> bar_close (hist ! i)"
  shows "tail 14 (loss_raw hist) = replicate (min 14 (length hist)) (Fin 0)"
proof (rule nth_equalityI)
  show "length (tail 14 (loss_raw hist)) = length (replicate (min 14 (length hist)) (Fin 0))"
    by (simp add: tail_def)
next
  fix i assume "i < length (tail 14 (loss_raw hist))"
  then have i: "i < min 14 (length hist)" by (simp add: tail_def) linarith
  let ?j = "length hist - 14 + i"
  have j: "?j < length hist" "length hist \<le> ?j + 14" using i by auto
  have "tail 14 (loss_raw hist) ! i = loss_raw hist ! ?j"
    using i by (simp add: tail_def)
  also have "\<dots> = Fin 0"
  proof (cases "0 < ?j")
    case True
    with assms j have "bar_close (hist ! (?j - 1)) \<le> bar_close (hist ! ?j)" by blast
    then show ?thesis using j(1) by (simp add: loss_raw_nth)
  next
    case False
    then show ?thesis using j(1) by (simp add: loss_raw_nth)
  qed
  finally show "tail 14 (loss_raw hist) ! i = replicate (min 14 (length hist)) (Fin 0) ! i"
    using i by simp
qed

lemma fl_ops_NaN [simp]:
  "fl_div a NaN = NaN" "fl_add a NaN = NaN" "fl_sub a NaN = NaN"
  by (cases a; simp add: fl_sub_def)+

lemma rsi_s_last:
  assumes "hist \<noteq> []"
  shows "last (rsi_s hist) =
     (let gain = window_mean 14 (s_where (\<lambda>x. fl_lt (Fin 0) x) (diff (column bar_close hist)) (Fin 0));
          loss = window_mean 14 (loss_raw hist);
          rs = fl_div gain (if loss = Fin 0 then NaN else loss)
      in fl_sub (Fin 100) (fl_div (Fin 100) (fl_add (Fin 1) rs)))"
proof -
  let ?g = "rolling_mean 14 (s_where (\<lambda>x. fl_lt (Fin 0) x) (diff (column bar_close hist)) (Fin 0))"
  let ?l = "s_replace (Fin 0) NaN (rolling_mean 14 (loss_raw hist))"
  have ne: "?g \<noteq> []" "rolling_mean 14 (loss_raw hist) \<noteq> []" "loss_raw hist \<noteq> []"
    "s_where (\<lambda>x. fl_lt (Fin 0) x) (diff (column bar_close hist)) (Fin 0) \<noteq> []"
    using assms by (auto simp: loss_raw_def s_where_def diff_def s_sub_def shift1_def)
  have len: "length ?g = length ?l" by simp
  have rs: "last (s_div ?g ?l) = fl_div (last ?g) (last ?l)"
    unfolding s_div_def using last_zip_map [OF len ne(1), of "\<lambda>(x, y). fl_div x y"] by simp
  have sne: "s_div ?g ?l \<noteq> []" using assms ne by (metis length_0_conv length_s_div len min.idem)
  have ll: "last ?l = (if window_mean 14 (loss_raw hist) = Fin 0 then NaN
      else window_mean 14 (loss_raw hist))"
    using ne by (simp add: s_replace_def last_map last_rolling_mean)
  have lg: "last ?g = window_mean 14
      (s_where (\<lambda>x. fl_lt (Fin 0) x) (diff (column bar_close hist)) (Fin 0))"
    using ne by (simp add: last_rolling_mean)
  show ?thesis
    using sne by (simp add: rsi_s_def Let_def loss_raw_def [symmetric] last_map rs ll lg)
qed

lemma rsi14_no_losses:
  assumes "\<forall>i. 0 < i \<and> i < length hist \<and> length hist \<le> i + 14 \<longrightarrow>
             bar_close (hist ! (i - 1)) \<le> bar_close (hist ! i)"
  shows "rsi14 hist = Inr (PInt 50)"
proof (cases "hist = []")
  case True
  then show ?thesis by (simp add: rsi14_eq)
next
  case False
  have "window_mean 14 (loss_raw hist) = NaN \<or> window_mean 14 (loss_raw hist) = Fin 0"
    using window_mean_zeros [OF tail_loss_raw_zeros [OF assms]] .
  then have "last (rsi_s hist) = NaN"
    using False by (auto simp: rsi_s_last Let_def)
  then show ?thesis by (simp add: rsi14_eq)
qed

lemma fold_enumerate_notin:
  "f \<notin> set xs \<Longrightarrow> fold (\<lambda>(i, f) m. m(f \<mapsto> i)) (enumerate n xs) m0 f = m0 f"
  by (induction xs arbitrary: n m0) auto

lemma fold_enumerate_nth:
  "distinct xs \<Longrightarrow> k < length xs \<Longrightarrow>
   fold (\<lambda>(i, f) m. m(f \<mapsto> i)) (enumerate n xs) m0 (xs ! k) = Some (n + k)"
proof (induction xs arbitrary: n m0 k)
  case Nil
  then show ?case by simp
next
  case (Cons x xs)
  have step: "fold (\<lambda>(i, f) m. m(f \<mapsto> i)) (enumerate n (x # xs)) m0 =
      fold (\<lambda>(i, f) m. m(f \<mapsto> i)) (enumerate (Suc n) xs) (m0(x \<mapsto> n))"
    by simp
  show ?case
  proof (cases k)
    case 0
    have "x \<notin> set xs" using Cons.prems by simp
    then have "fold (\<lambda>(i, f) m. m(f \<mapsto> i)) (enumerate (Suc n) xs) (m0(x \<mapsto> n)) x =
        (m0(x \<mapsto> n)) x"
      by (rule fold_enumerate_notin)
    then have "fold (\<lambda>(i, f) m. m(f \<mapsto> i)) (enumerate (Suc n) xs) (m0(x \<mapsto> n)) x = Some n"
      by (simp only: fun_upd_same)
    then show ?thesis unfolding 0 nth_Cons_0 step Nat.add_0_right .
  next
    case (Suc j)
    have "distinct xs" "j < length xs" using Cons.prems Suc by simp_all
    then have "fold (\<lambda>(i, f) m. m(f \<mapsto> i)) (enumerate (Suc n) xs) (m0(x \<mapsto> n)) (xs ! j) =
        Some (Suc n + j)"
      by (rule Cons.IH)
    then show ?thesis unfolding Suc nth_Cons_Suc step add_Suc_right add_Suc .
  qed
qed

lemma feat_idx_nth:
  assumes "i < 45"
  shows "feat_idx (SELECTED_FEATURES ! i) = Some i"
proof -
  have "i < length SELECTED_FEATURES" using assms by (simp add: length_SELECTED_FEATURES)
  then have "fold (\<lambda>(i, f) m. m(f \<mapsto> i)) (enumerate 0 SELECTED_FEATURES) Map.empty
      (SELECTED_FEATURES ! i) = Some (0 + i)"
    by (rule fold_enumerate_nth [OF distinct_SELECTED_FEATURES])
  then show ?thesis unfolding feat_idx_def add_0 .
qed

lemma category_indices_nth:
  "list_all (\<lambda>i. i < 45) idxs \<Longrightarrow>
   category_indices (map (nth SELECTED_FEATURES) idxs) = idxs"
  by (induction idxs) (simp_all add: category_indices_def map_filter_simps feat_idx_nth)

lemma contribution_nth:
  assumes "length vals = 45" "i < 45"
  shows "contribution vals (SELECTED_FEATURES ! i) = vals ! i"
  using map_of_zip_nth [of SELECTED_FEATURES vals i] assms
  by (simp add: contribution_def length_SELECTED_FEATURES distinct_SELECTED_FEATURES)

lemma FEATURE_CATEGORIES_table:
  "FEATURE_CATEGORIES = map (\<lambda>(c, idxs). (c, map (nth SELECTED_FEATURES) idxs)) category_table"
  by (simp add: FEATURE_CATEGORIES_def category_table_def SELECTED_FEATURES_def)

lemma category_table_bounds:
  "list_all (\<lambda>(c, idxs). list_all (\<lambda>i. i < 45) idxs) category_table"
  by (simp add: category_table_def)

lemma category_table_sorted: "sort (concat (map snd category_table)) = [0..<45]"
  by code_simp

lemma category_table_mset: "mset (concat (map snd category_table)) = mset [0..<45]"
  using category_table_sorted by (metis mset_sort)

lemma np_take_Inr:
  "list_all (\<lambda>i. i < length vals) idxs \<Longrightarrow> np_take vals idxs = Inr (map (nth vals) idxs)"
  by (simp add: np_take_def)

lemma list_all_less_mono:
  "list_all (\<lambda>i. i < (45::nat)) idxs \<Longrightarrow> 45 \<le> n \<Longrightarrow> list_all (\<lambda>i. i < n) idxs"
  by (induction idxs) auto

lemma map_result_table:
  assumes "list_all (\<lambda>(c, idxs). list_all (\<lambda>i. i < 45) idxs) tbl" "45 \<le> length vals"
  shows "map_result (\<lambda>(cat, flist).
         and_then (np_take vals (category_indices flist)) (\<lambda>picked.
           Inr (cat, sum_list picked)))
       (map (\<lambda>(c, idxs). (c, map (nth SELECTED_FEATURES) idxs)) tbl)
     = Inr (map (\<lambda>(c, idxs). (c, sum_list (map (nth vals) idxs))) tbl)"
  using assms
proof (induction tbl)
  case Nil
  then show ?case by simp
next
  case (Cons a tbl)
  obtain c idxs where a: "a = (c, idxs)" by (cases a)
  have b: "list_all (\<lambda>i. i < 45) idxs" using Cons.prems a by simp
  then have "list_all (\<lambda>i. i < length vals) idxs"
    using Cons.prems(2) by (rule list_all_less_mono)
  then have "np_take vals idxs = Inr (map (nth vals) idxs)" by (rule np_take_Inr)
  then show ?case using Cons a b by (simp add: category_indices_nth)
qed

lemma cat_vals_eq:
  assumes "45 \<le> length vals"
  shows "cat_vals vals =
     Inr (map (\<lambda>(c, idxs). (c, sum_list (map (nth vals) idxs))) category_table)"
  unfolding cat_vals_def FEATURE_CATEGORIES_table
  using category_table_bounds assms by (rule map_result_table)

lemma map_result_short:
  assumes "list_all (\<lambda>(c, idxs). list_all (\<lambda>i. i < 45) idxs) tbl"
    and "\<not> list_all (\<lambda>(c, idxs). list_all (\<lambda>i. i < length vals) idxs) tbl"
  shows "map_result (\<lambda>(cat, flist).
         and_then (np_take vals (category_indices flist)) (\<lambda>picked.
           Inr (cat, sum_list picked)))
       (map (\<lambda>(c, idxs). (c, map (nth SELECTED_FEATURES) idxs)) tbl)
     = Inl IndexError"
  using assms
proof (induction tbl)
  case Nil
  then show ?case by simp
next
  case (Cons a tbl)
  obtain c idxs where a: "a = (c, idxs)" by (cases a)
  have b: "list_all (\<lambda>i. i < 45) idxs" using Cons.prems a by simp
  show ?case
  proof (cases "list_all (\<lambda>i. i < length vals) idxs")
    case True
    then show ?thesis using Cons a b by (simp add: category_indices_nth np_take_def)
  next
    case False
    then show ?thesis using a b by (simp add: category_indices_nth np_take_def)
  qed
qed

lemma cat_vals_short:
  assumes "length vals < 45"
  shows "cat_vals vals = Inl IndexError"
proof -
  have "\<not> list_all (\<lambda>(c, idxs). list_all (\<lambda>i. i < length vals) idxs) category_table"
    using assms by (simp add: category_table_def)
  with category_table_bounds show ?thesis
    unfolding cat_vals_def FEATURE_CATEGORIES_table by (rule map_result_short)
qed

lemma contribution_map:
  assumes "length vals = 45" "list_all (\<lambda>i. i < 45) idxs"
  shows "map (contribution vals) (map (nth SELECTED_FEATURES) idxs) = map (nth vals) idxs"
  using assms(2) by (induction idxs) (simp_all add: contribution_nth [OF assms(1)])

lemma contribution_table:
  assumes "length vals = 45" "list_all (\<lambda>(c, idxs). list_all (\<lambda>i. i < 45) idxs) tbl"
  shows "map (\<lambda>(cat, flist). (cat, sum_list (map (contribution vals) flist)))
       (map (\<lambda>(c, idxs). (c, map (nth SELECTED_FEATURES) idxs)) tbl)
     = map (\<lambda>(c, idxs). (c, sum_list (map (nth vals) idxs))) tbl"
  using assms(2)
proof (induction tbl)
  case Nil
  then show ?case by simp
next
  case (Cons a tbl)
  obtain c idxs where a: "a = (c, idxs)" by (cases a)
  have "list_all (\<lambda>i. i < 45) idxs" using Cons.prems a by simp
  then have "map (contribution vals) (map (nth SELECTED_FEATURES) idxs) = map (nth vals) idxs"
    by (rule contribution_map [OF assms(1)])
  then have "map (contribution vals \<circ> nth SELECTED_FEATURES) idxs = map (nth vals) idxs"
    unfolding map_map .
  then have e: "sum_list (map (contribution vals \<circ> nth SELECTED_FEATURES) idxs) =
      sum_list (map (nth vals) idxs)"
    by (rule arg_cong)
  have "list_all (\<lambda>(c, idxs). list_all (\<lambda>i. i < 45) idxs) tbl" using Cons.prems by simp
  then have ih: "map (\<lambda>(cat, flist). (cat, sum_list (map (contribution vals) flist)))
       (map (\<lambda>(c, idxs). (c, map (nth SELECTED_FEATURES) idxs)) tbl)
     = map (\<lambda>(c, idxs). (c, sum_list (map (nth vals) idxs))) tbl"
    by (rule Cons.IH)
  show ?case using ih e unfolding a by simp
qed

lemma sum_table:
  "sum_list (map snd (map (\<lambda>(c, idxs). (c, sum_list (map (nth vals) idxs))) tbl)) =
   sum_list (map (nth vals) (concat (map snd tbl)))"
  by (induction tbl) auto

lemma sum_category_table:
  fixes vals :: "real list"
  assumes "length vals = 45"
  shows "sum_list (map (nth vals) (concat (map snd category_table))) = sum_list vals"
proof -
  have "mset (map (nth vals) (concat (map snd category_table))) = mset (map (nth vals) [0..<45])"
    using category_table_mset by (metis mset_map)
  then have "sum_list (map (nth vals) (concat (map snd category_table))) =
      sum_list (map (nth vals) [0..<45])"
    by (metis sum_mset_sum_list)
  also have "map (nth vals) [0..<45] = vals" using assms map_nth [of vals] by simp
  finally show ?thesis .
qed

lemma category_names_mset:
  "mset (concat (map snd FEATURE_CATEGORIES)) = mset SELECTED_FEATURES"
proof -
  have "concat (map snd FEATURE_CATEGORIES) =
      map (nth SELECTED_FEATURES) (concat (map snd category_table))"
    unfolding FEATURE_CATEGORIES_table by (simp add: map_concat comp_def case_prod_beta)
  then have "mset (concat (map snd FEATURE_CATEGORIES)) =
      mset (map (nth SELECTED_FEATURES) [0..<45])"
    using category_table_mset by (metis mset_map)
  also have "map (nth SELECTED_FEATURES) [0..<45] = SELECTED_FEATURES"
    using map_nth [of SELECTED_FEATURES] by (simp add: length_SELECTED_FEATURES)
  finally show ?thesis .
qed

lemma digit_char_is_digit: "d < 10 \<Longrightarrow> is_digit (digit_char d)"
proof -
  assume "d < 10"
  then have "d \<in> {0, 1, 2, 3, 4, 5, 6, 7, 8, 9}" by auto
  then show ?thesis by (auto simp: is_digit_def digit_char_def)
qed

lemma dict_set_append: "k \<notin> fst ` set d \<Longrightarrow> dict_set k v d = d @ [(k, v)]"
  by (induction d) auto

lemma fold_dict_set:
  "distinct (map fst (acc @ items)) \<Longrightarrow>
   fold (\<lambda>(k, v) d. dict_set k v d) items acc = acc @ items"
proof (induction items arbitrary: acc)
  case Nil
  then show ?case by simp
next
  case (Cons a items)
  obtain k v where a: "a = (k, v)" by (cases a)
  have "k \<notin> fst ` set acc" using Cons.prems a by auto
  then have step: "dict_set k v acc = acc @ [(k, v)]" by (rule dict_set_append)
  have "distinct (map fst ((acc @ [(k, v)]) @ items))" using Cons.prems a by simp
  then have "fold (\<lambda>(k, v) d. dict_set k v d) items (acc @ [(k, v)]) = (acc @ [(k, v)]) @ items"
    by (rule Cons.IH)
  then show ?case using a step by simp
qed

lemma py_dict_distinct: "distinct (map fst items) \<Longrightarrow> py_dict items = items"
  unfolding py_dict_def using fold_dict_set [of "[]" items] by simp

lemma FEATURE_LABELS_keys: "map fst FEATURE_LABELS = SELECTED_FEATURES"
  by (simp add: FEATURE_LABELS_def SELECTED_FEATURES_def)

lemma map_of_lookup_all:
  "distinct (map fst al) \<Longrightarrow>
   map (\<lambda>k. case map_of al k of Some l \<Rightarrow> l | None \<Rightarrow> k) (map fst al) = map snd al"
proof (induction al)
  case Nil
  then show ?case by simp
next
  case (Cons a al)
  obtain k v where a: "a = (k, v)" by (cases a)
  have "k \<notin> fst ` set al" "distinct (map fst al)" using Cons.prems a by auto
  then show ?case using Cons.IH a by (auto simp: map_of_eq_None_iff [symmetric])
qed

lemma feature_labels_all: "map feature_label SELECTED_FEATURES = map snd FEATURE_LABELS"
proof -
  have "distinct (map fst FEATURE_LABELS)"
    unfolding FEATURE_LABELS_keys by (rule distinct_SELECTED_FEATURES)
  then have "map (\<lambda>k. case map_of FEATURE_LABELS k of Some l \<Rightarrow> l | None \<Rightarrow> k)
      (map fst FEATURE_LABELS) = map snd FEATURE_LABELS"
    by (rule map_of_lookup_all)
  then show ?thesis unfolding FEATURE_LABELS_keys feature_label_def .
qed

lemma report_names_distinct: "distinct (identifying_names @ map snd FEATURE_LABELS)"
  by code_simp

lemma digits_nonempty: "digits n \<noteq> []"
  by (induction n rule: digits.induct) (subst digits.simps, simp)

lemma digits_are_digits: "list_all is_digit (digits n)"
proof (induction n rule: digits.induct)
  case (1 n)
  show ?case
  proof (cases "n < 10")
    case True
    then show ?thesis by (subst digits.simps) (simp add: digit_char_is_digit)
  next
    case False
    then have "list_all is_digit (digits (n div 10))" by (rule 1)
    moreover have "is_digit (digit_char (n mod 10))" by (rule digit_char_is_digit) simp
    ultimately show ?thesis using False by (subst digits.simps) simp
  qed
qed

lemma four_decimals_shape:
  assumes "sg = [] \<or> sg = ''-''" "ds \<noteq> []" "list_all is_digit ds"
    "is_digit a" "is_digit b" "is_digit c" "is_digit d"
  shows "four_decimals (sg @ ds @ ''.'' @ [a, b, c, d])"
proof -
  have nd: "\<not> is_digit CHR ''-''" by (simp add: is_digit_def)
  have h: "hd ds \<noteq> CHR ''-''" using assms(2,3) nd by (cases ds) auto
  show ?thesis
    using assms h
    by (auto simp: four_decimals_def Let_def nth_append)
qed

lemma format_4f_four_decimals: "four_decimals (format_4f (Fin x))"
proof -
  define q where "q = nat (round_half_even (\<bar>x\<bar> * 10000))"
  have "format_4f (Fin x) = (if x < 0 then ''-'' else []) @ digits (q div 10000) @ ''.'' @
         [digit_char (q div 1000 mod 10), digit_char (q div 100 mod 10),
          digit_char (q div 10 mod 10), digit_char (q mod 10)]"
    by (simp add: q_def Let_def del: digits.simps)
  moreover have "four_decimals ((if x < 0 then ''-'' else []) @ digits (q div 10000) @ ''.'' @
         [digit_char (q div 1000 mod 10), digit_char (q div 100 mod 10),
          digit_char (q div 10 mod 10), digit_char (q mod 10)])"
    by (rule four_decimals_shape)
       (simp_all add: digits_nonempty digits_are_digits digit_char_is_digit del: digits.simps)
  ultimately show ?thesis by simp
qed

lemma round_half_even_near: "\<bar>of_int (round_half_even y) - y\<bar> \<le> 1 / 2"
  unfolding round_half_even_def Let_def by (auto simp: abs_le_iff)

lemma report_row_eq:
  assumes "map fst metrics = SELECTED_FEATURES"
  shows "report_row h pred prob risk_level metrics =
     [(''Company'', Str (company h)), (''Ticker'', Str (ticker h)),
      (''Country'', Str (country h)), (''Sector'', Str (sector h)),
      (''Period'', Str (period h)), (''Date'', Str (date h)),
      (''Result'', Str (if pred = 1 then ''Distressed'' else ''Healthy'')),
      (''Probability'', Str (format_4f (Fin prob))), (''Risk Level'', Str risk_level)]
     @ map (\<lambda>(k, v). (feature_label k, feature_cell v)) metrics"
proof -
  let ?feats = "map (\<lambda>(k, v). (feature_label k, feature_cell v)) metrics"
  let ?fixed = "[(''Company'', Str (company h)), (''Ticker'', Str (ticker h)),
      (''Country'', Str (country h)), (''Sector'', Str (sector h)),
      (''Period'', Str (period h)), (''Date'', Str (date h)),
      (''Result'', Str (if pred = 1 then ''Distressed'' else ''Healthy'')),
      (''Probability'', Str (format_4f (Fin prob))), (''Risk Level'', Str risk_level)]"
  have "map fst ?feats = map feature_label (map fst metrics)"
    by (simp add: case_prod_beta comp_def)
  then have keys: "map fst ?feats = map snd FEATURE_LABELS"
    using assms feature_labels_all by simp
  have fixed: "map fst ?fixed = identifying_names" by (simp add: identifying_names_def)
  have all: "distinct (map fst (?fixed @ ?feats))"
    unfolding map_append keys fixed by (rule report_names_distinct)
  then have "distinct (map fst ?feats)" unfolding map_append distinct_append by blast
  then have inner: "py_dict ?feats = ?feats" by (rule py_dict_distinct)
  have "py_dict (?fixed @ ?feats) = ?fixed @ ?feats" using all by (rule py_dict_distinct)
  then show ?thesis unfolding report_row_def inner .
qed

lemma report_row_keys:
  assumes "map fst metrics = SELECTED_FEATURES"
  shows "map fst (report_row h pred prob risk_level metrics) =
     identifying_names @ map feature_label SELECTED_FEATURES"
proof -
  have "map fst (map (\<lambda>(k, v). (feature_label k, feature_cell v)) metrics) =
      map feature_label (map fst metrics)"
    by (simp add: case_prod_beta comp_def)
  then show ?thesis
    unfolding report_row_eq [OF assms] using assms by (simp add: identifying_names_def)
qed

lemma report_row_distinct:
  assumes "map fst metrics = SELECTED_FEATURES"
  shows "distinct (map fst (report_row h pred prob risk_level metrics))"
  unfolding report_row_keys [OF assms] feature_labels_all by (rule report_names_distinct)

lemma report_row_feature:
  assumes "map fst metrics = SELECTED_FEATURES" "(k, v) \<in> set metrics"
  shows "map_of (report_row h pred prob risk_level metrics) (feature_label k) =
     Some (feature_cell v)"
proof -
  have "(feature_label k, feature_cell v) \<in>
      set (map (\<lambda>(k, v). (feature_label k, feature_cell v)) metrics)"
    using assms(2) by force
  then have "(feature_label k, feature_cell v) \<in> set (report_row h pred prob risk_level metrics)"
    unfolding report_row_eq [OF assms(1)] by simp
  then show ?thesis using report_row_distinct [OF assms(1)] by (rule map_of_is_SomeI [rotated])
qed

lemma report_row_probability:
  assumes "map fst metrics = SELECTED_FEATURES"
  shows "map_of (report_row h pred prob risk_level metrics) ''Probability'' =
     Some (Str (format_4f (Fin prob)))"
  unfolding report_row_eq [OF assms] by simp

lemma metrics_body_constants:
  assumes "metrics_body data today = Inr m"
  shows "(''US_10Y'', PInt 0) \<in> set m" "(''Environment_Score'', PInt 50) \<in> set m"
    "(''Social_Score'', PInt 50) \<in> set m" "(''Month_x'', PInt (month today)) \<in> set m"
  using assms
  by (auto simp: metrics_body_def Let_def and_then_Inr_iff)

lemma feature_label_samples:
  "feature_label ''US_10Y'' = ''US Interest Rate''"
  "feature_label ''Environment_Score'' = ''Environmental Score''"
  "feature_label ''Social_Score'' = ''Social Score''"
  "feature_label ''Month_x'' = ''Month of Year''"
  by (simp_all add: feature_label_def FEATURE_LABELS_def)

lemma rising_data_returns:
  "\<exists>m. calculate_all_metrics rising_data sample_today = Some m \<and>
     metrics_body rising_data sample_today = Inr m \<and> map fst m = SELECTED_FEATURES"
proof -
  have "assets rising_data \<noteq> PNone" "equity rising_data \<noteq> PNone"
    by (simp_all add: rising_data_def empty_data_def fundamentals_defs)
  then obtain m where m: "calculate_all_metrics rising_data sample_today = Some m"
    using calculate_all_metrics_None_iff [of rising_data sample_today] by auto
  then have body: "metrics_body rising_data sample_today = Inr m"
    by (simp add: calculate_Some_iff)
  then have "map fst m = SELECTED_FEATURES" by (rule metrics_body_keys)
  with m body show ?thesis by blast
qed

lemma argsort_mset:
  assumes "is_desc_argsort keys order"
  shows "mset order = mset [0..<length keys]"
  using assms unfolding is_desc_argsort_def by (metis mset_sort)

lemma argsort_set:
  assumes "is_desc_argsort keys order"
  shows "set order = {0..<length keys}"
  using argsort_mset [OF assms] by (metis mset_eq_setD set_upt)

lemma argsort_distinct:
  assumes "is_desc_argsort keys order"
  shows "distinct order"
  using argsort_mset [OF assms] by (metis distinct_upt mset_eq_imp_distinct_iff)

lemma argsort_length:
  assumes "is_desc_argsort keys order"
  shows "length order = length keys"
  using argsort_mset [OF assms] by (metis length_upt mset_eq_length minus_nat.diff_0)

lemma argsort_hd_max:
  assumes "is_desc_argsort keys order" "j < length keys"
  shows "keys ! j \<le> keys ! hd order"
proof -
  have "j \<in> set order" using argsort_set [OF assms(1)] assms(2) by simp
  then obtain k where k: "k < length order" "order ! k = j" by (metis in_set_conv_nth)
  have ne: "order \<noteq> []" using k by auto
  show ?thesis
  proof (cases k)
    case 0
    then show ?thesis using k ne by (simp add: hd_conv_nth)
  next
    case (Suc k')
    have "sorted_wrt (\<lambda>i j. keys ! j \<le> keys ! i) order"
      using assms(1) by (simp add: is_desc_argsort_def)
    then have "keys ! (order ! k) \<le> keys ! (order ! 0)"
      using k Suc by (intro sorted_wrt_nth_less) auto
    then show ?thesis using k ne by (simp add: hd_conv_nth)
  qed
qed

lemma take_filter_sorted:
  assumes "sorted_wrt R xs"
  shows "sorted_wrt R (take k (filter p xs))"
    and "\<forall>i \<in> set (take k (filter p xs)). \<forall>j \<in> set (drop k (filter p xs)). R i j"
proof -
  have s: "sorted_wrt R (filter p xs)" using assms by (rule sorted_wrt_filter)
  then have "sorted_wrt R (take k (filter p xs) @ drop k (filter p xs))" by simp
  then show "sorted_wrt R (take k (filter p xs))"
    and "\<forall>i \<in> set (take k (filter p xs)). \<forall>j \<in> set (drop k (filter p xs)). R i j"
    unfolding sorted_wrt_append by blast+
qed

lemma not_taken_dropped:
  assumes "j \<in> set xs" "p j" "j \<notin> set (take k (filter p xs))"
  shows "j \<in> set (drop k (filter p xs))"
proof -
  have "j \<in> set (take k (filter p xs) @ drop k (filter p xs))" using assms(1,2) by simp
  then show ?thesis using assms(3) by (metis Un_iff set_append)
qed

lemma filter_count:
  assumes "mset xs = mset ys"
  shows "length (filter p xs) = length (filter p ys)"
proof -
  have "mset (filter p xs) = mset (filter p ys)" using assms by (metis mset_filter)
  then show ?thesis by (rule mset_eq_length)
qed

lemma top3_selection:
  assumes a: "is_desc_argsort (map abs vals) order"
    and g: "\<forall>i. p i \<and> i < length vals \<longrightarrow> \<bar>vals ! i\<bar> = g i"
  shows "(\<forall>i \<in> set (take 3 (filter p order)). p i \<and> i < length vals) \<and>
     sorted_wrt (\<lambda>i j. g j \<le> g i) (take 3 (filter p order)) \<and>
     distinct (take 3 (filter p order)) \<and>
     length (take 3 (filter p order)) = min 3 (length (filter p [0..<length vals])) \<and>
     (\<forall>j < length vals. p j \<and> j \<notin> set (take 3 (filter p order)) \<longrightarrow>
        (\<forall>i \<in> set (take 3 (filter p order)). g j \<le> g i))"
proof -
  let ?S = "take 3 (filter p order)"
  let ?R = "\<lambda>i j. map abs vals ! j \<le> map abs vals ! i"
  have set_order: "set order = {0..<length vals}" using argsort_set [OF a] by simp
  have sorted: "sorted_wrt ?R order" using a by (simp add: is_desc_argsort_def)
  have mem: "p i \<and> i < length vals" if "i \<in> set ?S" for i
  proof -
    from that have "i \<in> set (filter p order)" by (rule in_set_takeD)
    then show ?thesis using set_order by auto
  qed
  have key: "map abs vals ! i = g i" if "p i" "i < length vals" for i
    using that g by simp
  have "sorted_wrt ?R ?S" using sorted by (rule take_filter_sorted(1))
  then have 2: "sorted_wrt (\<lambda>i j. g j \<le> g i) ?S"
  proof (rule sorted_wrt_mono_rel [rotated])
    fix i j assume "i \<in> set ?S" "j \<in> set ?S" "?R i j"
    then show "g j \<le> g i" using mem key by metis
  qed
  have 3: "distinct ?S" using argsort_distinct [OF a] by simp
  have "length (filter p order) = length (filter p [0..<length (map abs vals)])"
    using argsort_mset [OF a] by (rule filter_count)
  then have 4: "length ?S = min 3 (length (filter p [0..<length vals]))" by simp
  have 5: "g j \<le> g i" if "j < length vals" "p j" "j \<notin> set ?S" "i \<in> set ?S" for i j
  proof -
    have "j \<in> set order" using that(1) set_order by simp
    then have "j \<in> set (drop 3 (filter p order))" using that(2,3) by (rule not_taken_dropped)
    moreover have "\<forall>i \<in> set ?S. \<forall>j \<in> set (drop 3 (filter p order)). ?R i j"
      using sorted by (rule take_filter_sorted(2))
    ultimately have "?R i j" using that(4) by blast
    then show ?thesis using key that mem by metis
  qed
  from mem 2 3 4 5 show ?thesis by blast
qed

lemma stable_order_valid: "is_desc_argsort (map abs vals) (stable_order vals)"
proof -
  let ?f = "\<lambda>i. - \<bar>vals ! i\<bar>"
  have "mset (stable_order vals) = mset [0..<length vals]" by (simp add: stable_order_def)
  moreover have "sorted [0..<length vals]" by simp
  ultimately have 1: "sort (stable_order vals) = [0..<length (map abs vals)]"
    by (simp add: properties_for_sort)
  have set_s: "set (stable_order vals) = {0..<length vals}" by (simp add: stable_order_def)
  have "sorted (map ?f (stable_order vals))" unfolding stable_order_def by (rule sorted_sort_key)
  then have "sorted_wrt (\<lambda>i j. ?f i \<le> ?f j) (stable_order vals)" by (simp add: sorted_map)
  then have 2: "sorted_wrt (\<lambda>i j. map abs vals ! j \<le> map abs vals ! i) (stable_order vals)"
  proof (rule sorted_wrt_mono_rel [rotated])
    fix i j assume "i \<in> set (stable_order vals)" "j \<in> set (stable_order vals)" "?f i \<le> ?f j"
    then show "map abs vals ! j \<le> map abs vals ! i" using set_s by simp
  qed
  from 1 2 show ?thesis by (simp add: is_desc_argsort_def)
qed

lemma argsort_unique:
  assumes a: "is_desc_argsort (map abs vals) order" and d: "distinct (map abs vals)"
  shows "order = stable_order vals"
proof -
  let ?f = "\<lambda>i. - \<bar>vals ! i\<bar>"
  have set_o: "set order = {0..<length vals}" using argsort_set [OF a] by simp
  have set_s: "set (stable_order vals) = {0..<length vals}" by (simp add: stable_order_def)
  have inj: "inj_on ?f {0..<length vals}"
  proof (rule inj_onI)
    fix i j assume ij: "i \<in> {0..<length vals}" "j \<in> {0..<length vals}" "?f i = ?f j"
    then have "map abs vals ! i = map abs vals ! j" by simp
    moreover have "i < length (map abs vals)" "j < length (map abs vals)" using ij(1,2) by simp_all
    ultimately show "i = j" using d by (metis nth_eq_iff_index_eq)
  qed
  have "sorted_wrt (\<lambda>i j. map abs vals ! j \<le> map abs vals ! i) order"
    using a by (simp add: is_desc_argsort_def)
  then have "sorted_wrt (\<lambda>i j. ?f i \<le> ?f j) order"
  proof (rule sorted_wrt_mono_rel [rotated])
    fix i j assume "i \<in> set order" "j \<in> set order" "map abs vals ! j \<le> map abs vals ! i"
    then show "?f i \<le> ?f j" using set_o by simp
  qed
  then have s1: "sorted (map ?f order)" by (simp add: sorted_map)
  have d1: "distinct (map ?f order)"
    using argsort_distinct [OF a] inj set_o by (simp add: distinct_map)
  have s2: "sorted (map ?f (stable_order vals))"
    unfolding stable_order_def by (rule sorted_sort_key)
  have "distinct (stable_order vals)" by (simp add: stable_order_def)
  then have d2: "distinct (map ?f (stable_order vals))" using inj set_s by (simp add: distinct_map)
  have "set (map ?f order) = set (map ?f (stable_order vals))" using set_o set_s by simp
  with s1 d1 s2 d2 have "map ?f order = map ?f (stable_order vals)"
    by (metis sorted_distinct_set_unique)
  moreover have "inj_on ?f (set order \<union> set (stable_order vals))" using inj set_o set_s by simp
  ultimately show ?thesis by (metis inj_on_map_eq_map)
qed

lemma render_shap_narrative_eq:
  assumes "length shap_vals = length SELECTED_FEATURES"
  shows "render_shap_narrative order shap_vals =
     Some (map (nth (labels SELECTED_FEATURES)) (take 3 (filter (\<lambda>i. 0 < shap_vals ! i) order)),
           map (nth (labels SELECTED_FEATURES)) (take 3 (filter (\<lambda>i. shap_vals ! i < 0) order)),
           map (nth (labels SELECTED_FEATURES)) (take 1 order))"
  using assms
  by (simp add: render_shap_narrative_def Let_def filter_map take_map comp_def)

lemma tie_order_valid: "is_desc_argsort (map abs tie_vals) tie_order"
  by code_simp

lemma tie_render:
  "render_shap_narrative tie_order tie_vals =
     Some ([''Daily Low Price'', ''Company Size (Market Value)''], [], [''Daily Low Price''])"
  by code_simp

lemma tie_stable_render:
  "render_shap_narrative (stable_order tie_vals) tie_vals =
     Some ([''Company Size (Market Value)'', ''Daily Low Price''], [],
           [''Company Size (Market Value)''])"
  by code_simp

lemma alternating_valid: "is_desc_argsort (map abs alternating_vals) (rev [0..<45])"
  by code_simp

lemma alternating_distinct: "distinct (map abs alternating_vals)"
  by code_simp

lemma alternating_render:
  "render_shap_narrative (rev [0..<45]) alternating_vals =
     Some ([''Month of Year'', ''Early-Stage Company'', ''Environmental Score''],
           [''Low Institutional Ownership'', ''Social Score'', ''Pandemic Period''],
           [''Month of Year''])"
  by code_simp

lemma metrics_body_rsi:
  assumes "metrics_body data today = Inr m"
  shows "rsi14 (history data) = Inr (the (map_of m ''RSI_14''))"
  using assms
  by (auto simp: metrics_body_def Let_def and_then_Inr_iff)


section \<open>Claims\<close>

text \<open>
  C2. For every probability the tier is Critical iff p >= 0.7, High iff
  0.5 <= p < 0.7, Medium iff 0.3 <= p < 0.5 and Low iff p < 0.3; the lower bounds
  are closed (0.3 is Medium, 0.29999 is Low, 0.5 is High, 0.7 is Critical); and the
  tier is monotone in the probability. It holds for every real p, in particular on
  the interval from 0 to 1.
\<close>

theorem risk_of_thresholds:
  "(risk_of p = Critical \<longleftrightarrow> p \<ge> 0.7) \<and>
   (risk_of p = High \<longleftrightarrow> 0.5 \<le> p \<and> p < 0.7) \<and>
   (risk_of p = Medium \<longleftrightarrow> 0.3 \<le> p \<and> p < 0.5) \<and>
   (risk_of p = Low \<longleftrightarrow> p < 0.3) \<and>
   risk_of 0.3 = Medium \<and> risk_of 0.29999 = Low \<and>
   risk_of 0.5 = High \<and> risk_of 0.7 = Critical \<and>
   (\<forall>q. p \<le> q \<longrightarrow> risk_rank (risk_of p) \<le> risk_rank (risk_of q))"
  by (simp add: risk_of_def)

theorem risk_of_thresholds_witness:
  "risk_of 0.62 = High \<and> risk_of 0.1 = Low \<and> risk_of 0.45 = Medium \<and>
   risk_of 0.93 = Critical \<and>
   risk_rank (risk_of 0.62) \<le> risk_rank (risk_of 0.93)"
proof -
  have le: "(0.62::real) \<le> 0.93" by simp
  have mono: "risk_rank (risk_of 0.62) \<le> risk_rank (risk_of 0.93)"
    using risk_of_thresholds [of "0.62"] le by blast
  have "risk_of 0.62 = High" "risk_of 0.1 = Low" "risk_of 0.45 = Medium"
    "risk_of 0.93 = Critical"
    by (simp_all add: risk_of_def)
  with mono show ?thesis by simp
qed

text \<open>
  C4 as stated fails: with label 0 and probability 0.8 the tier is Critical and the
  composer produces the Medium template.
\<close>

theorem render_explanation_not_tier:
  "risk_of 0.8 = Critical \<and>
   template_tier (render_explanation 0 0.8) = Some Medium \<and>
   card_mod (render_explanation 0 0.8) = ''exp-card-medium''"
  by (simp add: risk_of_def render_explanation_def template_tier_def)

text \<open>
  C4, amended. For every label and probability exactly one of the four templates is
  produced: the Critical template iff the label is 1 and p >= 0.7, the High
  template iff the label is 1 and 0.5 <= p < 0.7, the Medium template iff p >= 0.3
  and not (label 1 and p >= 0.5), and the Low template iff p < 0.3. The template
  is the one of the tier of p whenever the label is 1 or p < 0.5, and it is the
  Medium template whenever the label is not 1 and p >= 0.5.
\<close>

theorem render_explanation_template:
  "(template_tier (render_explanation pred p) = Some Critical \<longleftrightarrow> pred = 1 \<and> p \<ge> 0.7) \<and>
   (template_tier (render_explanation pred p) = Some High \<longleftrightarrow> pred = 1 \<and> 0.5 \<le> p \<and> p < 0.7) \<and>
   (template_tier (render_explanation pred p) = Some Medium \<longleftrightarrow>
      0.3 \<le> p \<and> \<not> (pred = 1 \<and> p \<ge> 0.5)) \<and>
   (template_tier (render_explanation pred p) = Some Low \<longleftrightarrow> p < 0.3) \<and>
   (pred = 1 \<or> p < 0.5 \<longrightarrow> template_tier (render_explanation pred p) = Some (risk_of p)) \<and>
   (pred \<noteq> 1 \<and> p \<ge> 0.5 \<longrightarrow> template_tier (render_explanation pred p) = Some Medium)"
proof -
  have tier: "template_tier (render_explanation pred p) =
      Some (if pred = 1 \<and> p \<ge> 0.7 then Critical
            else if pred = 1 \<and> p \<ge> 0.5 then High
            else if p \<ge> 0.3 then Medium else Low)"
    by (simp add: render_explanation_def template_tier_def)
  show ?thesis
    unfolding tier by (auto simp: risk_of_def)
qed

theorem render_explanation_template_witness:
  "template_tier (render_explanation 1 0.62) = Some (risk_of 0.62) \<and>
   template_tier (render_explanation 1 0.62) = Some High \<and>
   template_tier (render_explanation 0 0.55) = Some Medium \<and>
   risk_of 0.55 = High"
proof -
  have a: "template_tier (render_explanation 1 0.62) = Some (risk_of 0.62)"
    using render_explanation_template [of 1 "0.62"] by blast
  have ge: "(0::int) \<noteq> 1 \<and> (0.55::real) \<ge> 0.5" by simp
  have b: "template_tier (render_explanation 0 0.55) = Some Medium"
    using render_explanation_template [of 0 "0.55"] ge by blast
  from a b show ?thesis by (simp add: risk_of_def)
qed

text \<open>
  C7 fails on the code: a dict whose final_model entry is a true-valued object
  without predict_proba is returned as the model, and no error is shown. The
  fall-back over the dict's values does check the attribute; the two named keys do
  not.
\<close>

theorem load_model_unchecked_final_model:
  "load_model_resources (Content (DictObj [(''final_model'', Obj False True)]))
     (Content ()) (\<lambda>m. (None :: unit option))
   = Returned (Obj False True, (), None) \<and>
   \<not> has_predict_proba (Obj False True) \<and>
   \<not> has_predict_proba (DictObj [(''final_model'', Obj False True)])"
  by (simp add: load_model_resources_def resolve_model_def py_or_def dict_get_def)

text \<open>
  What the loader does guarantee: a returned model has predict_proba when the
  pickle is not a dict, and when it is a dict with neither named key holding a
  true value.
\<close>

lemma resolve_model_checked:
  assumes "resolve_model raw = Returned m"
    and "\<forall>items. raw = DictObj items \<longrightarrow>
           \<not> truthy (dict_get items ''final_model'') \<and> \<not> truthy (dict_get items ''best_model'')"
  shows "has_predict_proba m"
proof (cases raw)
  case NoneObj
  with assms show ?thesis by (simp add: resolve_model_def)
next
  case (Obj pp t)
  with assms show ?thesis by (auto simp: resolve_model_def split: if_splits)
next
  case (DictObj items)
  with assms have m: "m = first_with_predict_proba items" and "m \<noteq> NoneObj"
    by (auto simp: resolve_model_def py_or_def Let_def split: if_splits)
  then show ?thesis
    by (auto simp: first_with_predict_proba_def find_Some_iff split: option.splits)
qed

text \<open>
  C5 as stated fails on the number of features. The categories cover the 45 names of
  SELECTED_FEATURES; a vector of 44 contributions makes the aggregation raise IndexError
  (the Timing category reads position 44); and on the 45 contributions 0, ..., 0, 1 the
  Timing sum is 1 while the first 44 contributions sum to 0.
\<close>

theorem category_sums_not_44:
  "length (concat (map snd FEATURE_CATEGORIES)) = 45 \<and>
   length SELECTED_FEATURES = 45 \<and>
   cat_vals (replicate 44 1) = Inl IndexError \<and>
   cat_vals (replicate 44 0 @ [1]) =
     Inr [(''Financial Health'', 0), (''Market & Price'', 0), (''Oil & Global Macro'', 0),
          (''Regional Factors'', 0), (''Governance & ESG'', 0), (''Timing'', 1)] \<and>
   sum_list (take 44 (replicate 44 0 @ [1::real])) = 0"
proof -
  have 1: "length (concat (map snd FEATURE_CATEGORIES)) = 45"
    using category_names_mset length_SELECTED_FEATURES by (metis size_mset)
  have 2: "cat_vals (replicate 44 1) = Inl IndexError" by (rule cat_vals_short) simp
  have "45 \<le> length (replicate 44 0 @ [1::real])" by simp
  then have "cat_vals (replicate 44 0 @ [1]) =
     Inr (map (\<lambda>(c, idxs). (c, sum_list (map (nth (replicate 44 0 @ [1])) idxs))) category_table)"
    by (rule cat_vals_eq)
  then have 3: "cat_vals (replicate 44 0 @ [1]) =
     Inr [(''Financial Health'', 0), (''Market & Price'', 0), (''Oil & Global Macro'', 0),
          (''Regional Factors'', 0), (''Governance & ESG'', 0), (''Timing'', 1)]"
    by (simp add: category_table_def nth_append)
  have 4: "sum_list (take 44 (replicate 44 0 @ [1::real])) = 0"
    by (simp add: sum_list_replicate)
  from 1 2 3 4 show ?thesis by (simp add: length_SELECTED_FEATURES)
qed

text \<open>
  C5, amended. For every vector of 45 contributions aligned with SELECTED_FEATURES, the
  aggregation returns, for each of the 6 categories in source order, the sum of the
  contributions of the features listed in that category; the 6 feature lists are pairwise
  disjoint and without repetition, and together they are the 45 names of SELECTED_FEATURES;
  and the 6 category sums add up to the sum of the 45 contributions. Sums are exact.
\<close>

theorem category_sums_partition:
  assumes "length vals = length SELECTED_FEATURES"
  shows "cat_vals vals =
       Inr (map (\<lambda>(cat, flist). (cat, sum_list (map (contribution vals) flist)))
              FEATURE_CATEGORIES) \<and>
     length FEATURE_CATEGORIES = 6 \<and>
     distinct (concat (map snd FEATURE_CATEGORIES)) \<and>
     set (concat (map snd FEATURE_CATEGORIES)) = set SELECTED_FEATURES \<and>
     length SELECTED_FEATURES = 45 \<and>
     (\<forall>cv. cat_vals vals = Inr cv \<longrightarrow> sum_list (map snd cv) = sum_list vals)"
proof -
  have len: "length vals = 45" using assms by (simp add: length_SELECTED_FEATURES)
  then have le: "45 \<le> length vals" by simp
  have cv: "cat_vals vals =
      Inr (map (\<lambda>(c, idxs). (c, sum_list (map (nth vals) idxs))) category_table)"
    using le by (rule cat_vals_eq)
  have spec: "map (\<lambda>(cat, flist). (cat, sum_list (map (contribution vals) flist)))
        FEATURE_CATEGORIES
      = map (\<lambda>(c, idxs). (c, sum_list (map (nth vals) idxs))) category_table"
    unfolding FEATURE_CATEGORIES_table using len category_table_bounds
    by (rule contribution_table)
  have 1: "cat_vals vals =
       Inr (map (\<lambda>(cat, flist). (cat, sum_list (map (contribution vals) flist)))
              FEATURE_CATEGORIES)"
    using cv spec by simp
  have 2: "length FEATURE_CATEGORIES = 6" by (simp add: FEATURE_CATEGORIES_def)
  have 3: "distinct (concat (map snd FEATURE_CATEGORIES))"
    using category_names_mset distinct_SELECTED_FEATURES by (metis mset_eq_imp_distinct_iff)
  have 4: "set (concat (map snd FEATURE_CATEGORIES)) = set SELECTED_FEATURES"
    using category_names_mset by (rule mset_eq_setD)
  have 5: "sum_list (map snd cv') = sum_list vals" if "cat_vals vals = Inr cv'" for cv'
  proof -
    from that cv have "cv' = map (\<lambda>(c, idxs). (c, sum_list (map (nth vals) idxs))) category_table"
      by simp
    then show ?thesis using sum_table [of vals category_table] sum_category_table [OF len]
      by simp
  qed
  from 1 2 3 4 5 show ?thesis by (simp add: length_SELECTED_FEATURES)
qed

theorem category_sums_partition_witness:
  "length (replicate 45 (2::real)) = length SELECTED_FEATURES \<and>
   (\<exists>cv. cat_vals (replicate 45 2) = Inr cv \<and> length cv = 6 \<and> sum_list (map snd cv) = 90)"
proof -
  have len: "length (replicate 45 (2::real)) = length SELECTED_FEATURES"
    by (simp add: length_SELECTED_FEATURES)
  from category_sums_partition [OF len]
  obtain cv where cv: "cat_vals (replicate 45 2) = Inr cv" "length cv = 6"
    by (simp add: FEATURE_CATEGORIES_def)
  with category_sums_partition [OF len] have "sum_list (map snd cv) = sum_list (replicate 45 2)"
    by blast
  then have "sum_list (map snd cv) = 90" by (simp add: sum_list_replicate)
  with len cv show ?thesis by blast
qed

text \<open>
  C9 as stated fails on the features whose value is an int. In the report of the vector
  extracted from rising_data on 2025-03-26, the cells US Interest Rate, Environmental Score
  and Month of Year hold the ints 0, 50 and 3 themselves, not a text with four decimals.
\<close>

theorem report_int_features_unformatted:
  "map_option
     (\<lambda>m. map (map_of (report_row sample_header 1 (4 / 5) ''Critical'' m))
        [''US Interest Rate'', ''Environmental Score'', ''Month of Year''])
     (calculate_all_metrics rising_data sample_today)
   = Some [Some (Val (PInt 0)), Some (Val (PInt 50)), Some (Val (PInt 3))]"
proof -
  obtain m where m: "calculate_all_metrics rising_data sample_today = Some m"
    and body: "metrics_body rising_data sample_today = Inr m"
    and keys: "map fst m = SELECTED_FEATURES"
    using rising_data_returns by blast
  have c: "map_of (report_row sample_header 1 (4 / 5) ''Critical'' m) (feature_label ''US_10Y'')
        = Some (feature_cell (PInt 0))"
    "map_of (report_row sample_header 1 (4 / 5) ''Critical'' m) (feature_label ''Environment_Score'')
        = Some (feature_cell (PInt 50))"
    "map_of (report_row sample_header 1 (4 / 5) ''Critical'' m) (feature_label ''Month_x'')
        = Some (feature_cell (PInt (month sample_today)))"
    using metrics_body_constants [OF body] by (simp_all add: report_row_feature [OF keys])
  have "month sample_today = 3" by (simp add: sample_today_def)
  with c m show ?thesis by (simp add: feature_label_samples feature_cell_def)
qed

text \<open>
  C9, amended. For every feature vector (with the names of SELECTED_FEATURES), the report
  row holds the nine identifying and result fields followed by one cell per feature, under
  the feature's display name. The cell of a float value is its text under the format .4f:
  for a finite value a text with exactly four decimal places, within 0.00005 of the value,
  and nan for NaN. The cell of an int value is the int itself, unformatted. The probability
  cell is the probability under the format .4f.
\<close>

theorem report_feature_cells:
  assumes "map fst metrics = SELECTED_FEATURES"
  shows "map fst (report_row h pred prob risk_level metrics) =
       identifying_names @ map feature_label SELECTED_FEATURES \<and>
     distinct (map fst (report_row h pred prob risk_level metrics)) \<and>
     (\<forall>(k, v) \<in> set metrics.
        map_of (report_row h pred prob risk_level metrics) (feature_label k) =
          Some (feature_cell v)) \<and>
     (\<forall>x. feature_cell (PFloat (Fin x)) = Str (format_4f (Fin x)) \<and>
          four_decimals (format_4f (Fin x)) \<and>
          \<bar>real_of_int (round_half_even (\<bar>x\<bar> * 10000)) / 10000 - \<bar>x\<bar>\<bar> \<le> 1 / 20000) \<and>
     feature_cell (PFloat NaN) = Str ''nan'' \<and>
     (\<forall>i. feature_cell (PInt i) = Val (PInt i)) \<and>
     map_of (report_row h pred prob risk_level metrics) ''Probability'' =
       Some (Str (format_4f (Fin prob)))"
proof -
  have 1: "map fst (report_row h pred prob risk_level metrics) =
       identifying_names @ map feature_label SELECTED_FEATURES"
    using assms by (rule report_row_keys)
  have 2: "distinct (map fst (report_row h pred prob risk_level metrics))"
    using assms by (rule report_row_distinct)
  have 3: "\<forall>(k, v) \<in> set metrics.
        map_of (report_row h pred prob risk_level metrics) (feature_label k) =
          Some (feature_cell v)"
    using report_row_feature [OF assms] by blast
  have near: "\<bar>real_of_int (round_half_even (\<bar>x\<bar> * 10000)) / 10000 - \<bar>x\<bar>\<bar> \<le> 1 / 20000" for x
  proof -
    have "\<bar>real_of_int (round_half_even (\<bar>x\<bar> * 10000)) - \<bar>x\<bar> * 10000\<bar> \<le> 1 / 2"
      by (rule round_half_even_near)
    then show ?thesis by (simp add: abs_le_iff field_simps)
  qed
  have 4: "\<forall>x. feature_cell (PFloat (Fin x)) = Str (format_4f (Fin x)) \<and>
          four_decimals (format_4f (Fin x)) \<and>
          \<bar>real_of_int (round_half_even (\<bar>x\<bar> * 10000)) / 10000 - \<bar>x\<bar>\<bar> \<le> 1 / 20000"
    using near format_4f_four_decimals by (simp add: feature_cell_def del: format_4f.simps)
  have 5: "feature_cell (PFloat NaN) = Str ''nan''" by (simp add: feature_cell_def)
  have 6: "\<forall>i. feature_cell (PInt i) = Val (PInt i)" by (simp add: feature_cell_def)
  have 7: "map_of (report_row h pred prob risk_level metrics) ''Probability'' =
       Some (Str (format_4f (Fin prob)))"
    using assms by (rule report_row_probability)
  from 1 2 3 4 5 6 7 show ?thesis by blast
qed

theorem report_feature_cells_witness:
  "\<exists>m. calculate_all_metrics rising_data sample_today = Some m \<and>
     map fst m = SELECTED_FEATURES \<and> (''Social_Score'', PInt 50) \<in> set m \<and>
     length (report_row sample_header 1 (4 / 5) ''Critical'' m) = 54 \<and>
     map_of (report_row sample_header 1 (4 / 5) ''Critical'' m) ''Social Score''
       = Some (Val (PInt 50)) \<and>
     feature_cell (PFloat (Fin (1 / 32))) = Str ''0.0312'' \<and> four_decimals ''0.0312''"
proof -
  obtain m where m: "calculate_all_metrics rising_data sample_today = Some m"
    and body: "metrics_body rising_data sample_today = Inr m"
    and keys: "map fst m = SELECTED_FEATURES"
    using rising_data_returns by blast
  note t = report_feature_cells [OF keys, of sample_header 1 "4 / 5" "''Critical''"]
  have mem: "(''Social_Score'', PInt 50) \<in> set m" using metrics_body_constants [OF body] by simp
  from t have "length (map fst (report_row sample_header 1 (4 / 5) ''Critical'' m)) =
      length (identifying_names @ map feature_label SELECTED_FEATURES)"
    by simp
  then have len: "length (report_row sample_header 1 (4 / 5) ''Critical'' m) = 54"
    by (simp add: identifying_names_def length_SELECTED_FEATURES)
  from t mem have "map_of (report_row sample_header 1 (4 / 5) ''Critical'' m)
      (feature_label ''Social_Score'') = Some (feature_cell (PInt 50))"
    by blast
  then have cell: "map_of (report_row sample_header 1 (4 / 5) ''Critical'' m) ''Social Score''
       = Some (Val (PInt 50))"
    using t by (simp add: feature_label_samples)
  have r: "round_half_even (625 / 2) = 312" by (simp add: round_half_even_def Let_def)
  have f: "format_4f (Fin (1 / 32)) = ''0.0312''" by (simp add: r digit_char_def)
  from t have "feature_cell (PFloat (Fin (1 / 32))) = Str (format_4f (Fin (1 / 32)))"
    "four_decimals (format_4f (Fin (1 / 32)))"
    by blast+
  then have g: "feature_cell (PFloat (Fin (1 / 32))) = Str ''0.0312''" "four_decimals ''0.0312''"
    unfolding f by simp_all
  from m keys mem len cell g show ?thesis by blast
qed

text \<open>
  C6 as stated fails on the order of equal contributions. On tie_vals the first two
  features contribute the same amount; tie_order, which lists the second before the first,
  is an index along which the absolute contributions do not increase, so it is one the sort
  of line 946 may return; with it the narrative names Daily Low Price first and as the
  primary driver, where the canonical order of the ties names Company Size (Market Value).
\<close>

theorem tie_order_not_canonical:
  "is_desc_argsort (map abs tie_vals) tie_order \<and>
   render_shap_narrative tie_order tie_vals =
     Some ([''Daily Low Price'', ''Company Size (Market Value)''], [], [''Daily Low Price'']) \<and>
   render_shap_narrative (stable_order tie_vals) tie_vals =
     Some ([''Company Size (Market Value)'', ''Daily Low Price''], [],
           [''Company Size (Market Value)''])"
  by (intro conjI tie_order_valid tie_render tie_stable_render)

text \<open>
  C6, amended. For every vector of 45 contributions and every index that the descending
  sort of the absolute contributions may return, the narrative selects: as primary driver
  the first feature of the index, whose absolute contribution is the largest; as top
  positives the first three features of the index with a positive contribution (all of
  them when there are fewer), which are listed from the largest contribution down and
  contribute at least as much as every positive feature left out; as top negatives the
  first three with a negative contribution, listed from the most negative up and at most
  equal to every negative feature left out. The order among equal absolute contributions
  is the index's: when no two absolute contributions are equal the index is the canonical
  stable ranking, which is always one of the admissible indexes.
\<close>

theorem top_attribution_selection:
  assumes "length shap_vals = length SELECTED_FEATURES"
    and "is_desc_argsort (map abs shap_vals) order"
  shows "\<exists>P N.
     render_shap_narrative order shap_vals =
       Some (map (nth (labels SELECTED_FEATURES)) P, map (nth (labels SELECTED_FEATURES)) N,
             [labels SELECTED_FEATURES ! hd order]) \<and>
     hd order < length shap_vals \<and>
     (\<forall>j < length shap_vals. \<bar>shap_vals ! j\<bar> \<le> \<bar>shap_vals ! hd order\<bar>) \<and>
     P = take 3 (filter (\<lambda>i. 0 < shap_vals ! i) order) \<and>
     (\<forall>i \<in> set P. 0 < shap_vals ! i \<and> i < length shap_vals) \<and>
     sorted_wrt (\<lambda>i j. shap_vals ! j \<le> shap_vals ! i) P \<and> distinct P \<and>
     length P = min 3 (length (filter (\<lambda>i. 0 < shap_vals ! i) [0..<length shap_vals])) \<and>
     (\<forall>j < length shap_vals. 0 < shap_vals ! j \<and> j \<notin> set P \<longrightarrow>
        (\<forall>i \<in> set P. shap_vals ! j \<le> shap_vals ! i)) \<and>
     N = take 3 (filter (\<lambda>i. shap_vals ! i < 0) order) \<and>
     (\<forall>i \<in> set N. shap_vals ! i < 0 \<and> i < length shap_vals) \<and>
     sorted_wrt (\<lambda>i j. shap_vals ! i \<le> shap_vals ! j) N \<and> distinct N \<and>
     length N = min 3 (length (filter (\<lambda>i. shap_vals ! i < 0) [0..<length shap_vals])) \<and>
     (\<forall>j < length shap_vals. shap_vals ! j < 0 \<and> j \<notin> set N \<longrightarrow>
        (\<forall>i \<in> set N. shap_vals ! i \<le> shap_vals ! j)) \<and>
     (distinct (map abs shap_vals) \<longrightarrow> order = stable_order shap_vals) \<and>
     is_desc_argsort (map abs shap_vals) (stable_order shap_vals)"
proof -
  let ?P = "take 3 (filter (\<lambda>i. 0 < shap_vals ! i) order)"
  let ?N = "take 3 (filter (\<lambda>i. shap_vals ! i < 0) order)"
  have len: "length order = length shap_vals" using argsort_length [OF assms(2)] by simp
  have "length shap_vals = 45" using assms(1) by (simp add: length_SELECTED_FEATURES)
  then have ne: "order \<noteq> []" using len by auto
  then have t: "take 1 order = [hd order]" by (cases order) simp_all
  have r: "render_shap_narrative order shap_vals =
       Some (map (nth (labels SELECTED_FEATURES)) ?P, map (nth (labels SELECTED_FEATURES)) ?N,
             [labels SELECTED_FEATURES ! hd order])"
    unfolding render_shap_narrative_eq [OF assms(1)] t by simp
  have "hd order \<in> set order" using ne by simp
  then have h: "hd order < length shap_vals" using argsort_set [OF assms(2)] by simp
  have m: "\<bar>shap_vals ! j\<bar> \<le> \<bar>shap_vals ! hd order\<bar>" if "j < length shap_vals" for j
    using argsort_hd_max [OF assms(2), of j] that h by simp
  have m': "\<forall>j < length shap_vals. \<bar>shap_vals ! j\<bar> \<le> \<bar>shap_vals ! hd order\<bar>"
    using m by blast
  have g1: "\<forall>i. 0 < shap_vals ! i \<and> i < length shap_vals \<longrightarrow>
      \<bar>shap_vals ! i\<bar> = shap_vals ! i"
    by simp
  have g2: "\<forall>i. shap_vals ! i < 0 \<and> i < length shap_vals \<longrightarrow>
      \<bar>shap_vals ! i\<bar> = - shap_vals ! i"
    by simp
  note p = top3_selection [OF assms(2), of "\<lambda>i. 0 < shap_vals ! i" "\<lambda>i. shap_vals ! i", OF g1]
  note n0 = top3_selection [OF assms(2), of "\<lambda>i. shap_vals ! i < 0" "\<lambda>i. - shap_vals ! i", OF g2]
  have n2: "sorted_wrt (\<lambda>i j. shap_vals ! i \<le> shap_vals ! j) ?N"
    using n0 [THEN conjunct2, THEN conjunct1] by (simp only: neg_le_iff_le)
  have n5: "\<forall>j < length shap_vals. shap_vals ! j < 0 \<and> j \<notin> set ?N \<longrightarrow>
        (\<forall>i \<in> set ?N. shap_vals ! i \<le> shap_vals ! j)"
    using n0 [THEN conjunct2, THEN conjunct2, THEN conjunct2, THEN conjunct2]
    by (simp only: neg_le_iff_le)
  have u: "distinct (map abs shap_vals) \<longrightarrow> order = stable_order shap_vals"
    using argsort_unique [OF assms(2)] by (rule impI)
  have v: "is_desc_argsort (map abs shap_vals) (stable_order shap_vals)"
    by (rule stable_order_valid)
  show ?thesis
    by (intro exI [of _ ?P] exI [of _ ?N] conjI refl r h m' u v n2 n5
        p [THEN conjunct1] p [THEN conjunct2, THEN conjunct1]
        p [THEN conjunct2, THEN conjunct2, THEN conjunct1]
        p [THEN conjunct2, THEN conjunct2, THEN conjunct2, THEN conjunct1]
        p [THEN conjunct2, THEN conjunct2, THEN conjunct2, THEN conjunct2]
        n0 [THEN conjunct1]
        n0 [THEN conjunct2, THEN conjunct2, THEN conjunct1]
        n0 [THEN conjunct2, THEN conjunct2, THEN conjunct2, THEN conjunct1])
qed

theorem top_attribution_selection_witness:
  "length alternating_vals = length SELECTED_FEATURES \<and>
   is_desc_argsort (map abs alternating_vals) (rev [0..<45]) \<and>
   distinct (map abs alternating_vals) \<and>
   rev [0..<45] = stable_order alternating_vals \<and>
   render_shap_narrative (rev [0..<45]) alternating_vals =
     Some ([''Month of Year'', ''Early-Stage Company'', ''Environmental Score''],
           [''Low Institutional Ownership'', ''Social Score'', ''Pandemic Period''],
           [''Month of Year''])"
proof -
  have len: "length alternating_vals = length SELECTED_FEATURES"
    by (simp add: alternating_vals_def length_SELECTED_FEATURES)
  from top_attribution_selection [OF len alternating_valid]
  have "distinct (map abs alternating_vals) \<longrightarrow> rev [0..<45] = stable_order alternating_vals"
    by (elim exE conjE)
  then have "rev [0..<45] = stable_order alternating_vals" using alternating_distinct by (rule mp)
  then show ?thesis
    by (intro conjI len alternating_valid alternating_distinct alternating_render)
qed

text \<open>
  C1 fails on a snapshot whose cash flow statement holds a NaN line item. On
  nan_cash_flow_data (sixteen daily bars, empty balance sheet and income statement, the row
  Total Cash From Operating Activities present with the value NaN) the extraction returns
  a vector whose names are the 45 names of SELECTED_FEATURES and whose value for
  Operating Cf_M is NaN: gv (line 624) passes the NaN on, where lines 676, 702 and 723
  replace a NaN by a default. On none_assets_data (the info dict holds None for
  totalAssets) the comparison of line 682 raises and the extraction returns no vector,
  where line 646 replaces a None market value by 0.
\<close>

theorem nan_line_item_reaches_vector:
  "map_option (map fst) (calculate_all_metrics nan_cash_flow_data sample_today)
     = Some SELECTED_FEATURES \<and>
   length SELECTED_FEATURES = 45 \<and>
   map_option (\<lambda>m. map_of m ''Operating Cf_M'')
     (calculate_all_metrics nan_cash_flow_data sample_today) = Some (Some (PFloat NaN)) \<and>
   calculate_all_metrics none_assets_data sample_today = None"
proof -
  have "assets nan_cash_flow_data \<noteq> PNone" "equity nan_cash_flow_data \<noteq> PNone"
    by (simp_all add: nan_cash_flow_data_def rising_data_def empty_data_def fundamentals_defs)
  then obtain m where m: "calculate_all_metrics nan_cash_flow_data sample_today = Some m"
    using calculate_all_metrics_None_iff [of nan_cash_flow_data sample_today] by auto
  then have body: "metrics_body nan_cash_flow_data sample_today = Inr m"
    by (simp add: calculate_Some_iff)
  have keys: "map fst m = SELECTED_FEATURES" using body by (rule metrics_body_keys)
  have "''Operating Cf_M'' \<in> set SELECTED_FEATURES" by (simp add: SELECTED_FEATURES_def)
  then have some: "map_of m ''Operating Cf_M'' = Some (the (map_of m ''Operating Cf_M''))"
    using map_of_the [OF keys] by simp
  have "ocf nan_cash_flow_data = PFloat NaN"
    by (simp add: nan_cash_flow_data_def rising_data_def empty_data_def fundamentals_defs)
  then have "the (map_of m ''Operating Cf_M'') = PFloat NaN"
    using metrics_body_ocf_m [OF body] by (simp add: py_truediv_def)
  with some have nan: "map_of m ''Operating Cf_M'' = Some (PFloat NaN)" by simp
  have "assets none_assets_data = PNone"
    by (simp add: none_assets_data_def rising_data_def empty_data_def fundamentals_defs)
  then have none: "calculate_all_metrics none_assets_data sample_today = None"
    by (simp add: calculate_all_metrics_None_iff)
  from m keys nan none show ?thesis by (simp add: length_SELECTED_FEATURES)
qed

text \<open>
  C3. Zero-guard laws. No snapshot makes the extraction raise a division error (or an
  index error): the only exception it can raise is a TypeError. Whenever a vector is
  returned: if the extracted total assets are 0 then Asset_Turnover, Equity_Ratio and ROA_%
  are 0 and Altman_Z_Score is 0.0; if the extracted equity is 0 then Debt_to_Equity and
  ROE_% are 0; if the extracted debt is 0 then OCF_to_Debt is 0.
\<close>

theorem zero_guard_laws:
  "metrics_body data today \<noteq> Inl ZeroDivisionError \<and>
   metrics_body data today \<noteq> Inl IndexError \<and>
   (\<forall>m. calculate_all_metrics data today = Some m \<longrightarrow>
     (py_eq0 (assets data) \<longrightarrow>
        map_of m ''Asset_Turnover'' = Some (PInt 0) \<and> map_of m ''Equity_Ratio'' = Some (PInt 0) \<and>
        map_of m ''ROA_%'' = Some (PInt 0) \<and>
        map_of m ''Altman_Z_Score'' = Some (PFloat (Fin 0))) \<and>
     (py_eq0 (equity data) \<longrightarrow>
        map_of m ''Debt_to_Equity'' = Some (PInt 0) \<and> map_of m ''ROE_%'' = Some (PInt 0)) \<and>
     (\<forall>d. debt data = Inr d \<and> py_eq0 d \<longrightarrow> map_of m ''OCF_to_Debt'' = Some (PInt 0)))"
proof -
  have no_div: "metrics_body data today \<noteq> Inl ZeroDivisionError"
    "metrics_body data today \<noteq> Inl IndexError"
    by (simp_all add: metrics_body_Inl_iff)
  have laws: "(py_eq0 (assets data) \<longrightarrow>
        map_of m ''Asset_Turnover'' = Some (PInt 0) \<and> map_of m ''Equity_Ratio'' = Some (PInt 0) \<and>
        map_of m ''ROA_%'' = Some (PInt 0) \<and>
        map_of m ''Altman_Z_Score'' = Some (PFloat (Fin 0))) \<and>
     (py_eq0 (equity data) \<longrightarrow>
        map_of m ''Debt_to_Equity'' = Some (PInt 0) \<and> map_of m ''ROE_%'' = Some (PInt 0)) \<and>
     (\<forall>d. debt data = Inr d \<and> py_eq0 d \<longrightarrow> map_of m ''OCF_to_Debt'' = Some (PInt 0))"
    if some: "calculate_all_metrics data today = Some m" for m
  proof -
    from some have body: "metrics_body data today = Inr m" by (simp add: calculate_Some_iff)
    have keys: "map fst m = SELECTED_FEATURES" using body by (rule metrics_body_keys)
    have mem: "k \<in> set SELECTED_FEATURES \<Longrightarrow> map_of m k = Some (the (map_of m k))" for k
      using map_of_the [OF keys] by simp
    obtain debt' wc where f:
      "debt data = Inr debt'"
      "Inr (the (map_of m ''Equity_Ratio'')) = guarded_ratio (equity data) (assets data)"
      "Inr (the (map_of m ''Asset_Turnover'')) = guarded_ratio (revenue data) (assets data)"
      "Inr (the (map_of m ''OCF_to_Debt'')) = guarded_ratio (ocf data) debt'"
      "Inr (the (map_of m ''Debt_to_Equity'')) = guarded_ratio debt' (equity data)"
      "Inr (the (map_of m ''ROE_%'')) = guarded_pct (net_inc data) (equity data)"
      "Inr (the (map_of m ''ROA_%'')) = guarded_pct (net_inc data) (assets data)"
      "Inr (the (map_of m ''Altman_Z_Score'')) =
         altman_z wc (assets data) (retained data) (ebit data) (equity data) debt' (revenue data)"
      using metrics_body_features [OF body] by blast
    have in_keys: "''Equity_Ratio'' \<in> set SELECTED_FEATURES"
      "''Asset_Turnover'' \<in> set SELECTED_FEATURES" "''OCF_to_Debt'' \<in> set SELECTED_FEATURES"
      "''Debt_to_Equity'' \<in> set SELECTED_FEATURES" "''ROE_%'' \<in> set SELECTED_FEATURES"
      "''ROA_%'' \<in> set SELECTED_FEATURES" "''Altman_Z_Score'' \<in> set SELECTED_FEATURES"
      by (simp_all add: SELECTED_FEATURES_def)
    have a: "map_of m ''Asset_Turnover'' = Some (PInt 0) \<and>
         map_of m ''Equity_Ratio'' = Some (PInt 0) \<and>
         map_of m ''ROA_%'' = Some (PInt 0) \<and>
         map_of m ''Altman_Z_Score'' = Some (PFloat (Fin 0))"
      if "py_eq0 (assets data)"
      using that f(2,3,7,8) mem [OF in_keys(1)] mem [OF in_keys(2)] mem [OF in_keys(6)]
        mem [OF in_keys(7)]
      by (simp add: guarded_ratio_eq0 guarded_pct_eq0 altman_z_eq0)
    have q: "map_of m ''Debt_to_Equity'' = Some (PInt 0) \<and> map_of m ''ROE_%'' = Some (PInt 0)"
      if "py_eq0 (equity data)"
      using that f(5,6) mem [OF in_keys(4)] mem [OF in_keys(5)]
      by (simp add: guarded_ratio_eq0 guarded_pct_eq0)
    have d: "map_of m ''OCF_to_Debt'' = Some (PInt 0)" if "debt data = Inr d" "py_eq0 d" for d
      using that f(1,4) mem [OF in_keys(3)] by (simp add: guarded_ratio_eq0)
    from a q d show ?thesis by blast
  qed
  from no_div laws show ?thesis by blast
qed

theorem zero_guard_laws_witness:
  "py_eq0 (assets empty_data) \<and> py_eq0 (equity empty_data) \<and> debt empty_data = Inr (PInt 0) \<and>
   py_eq0 (PInt 0) \<and>
   map_option (\<lambda>m. map (map_of m)
      [''Asset_Turnover'', ''Equity_Ratio'', ''ROA_%'', ''Altman_Z_Score'', ''Debt_to_Equity'',
       ''ROE_%'', ''OCF_to_Debt'']) (calculate_all_metrics empty_data sample_today)
   = Some [Some (PInt 0), Some (PInt 0), Some (PInt 0), Some (PFloat (Fin 0)), Some (PInt 0),
       Some (PInt 0), Some (PInt 0)]"
proof -
  have h: "py_eq0 (assets empty_data)" "py_eq0 (equity empty_data)"
    "debt empty_data = Inr (PInt 0)" "py_eq0 (PInt 0)"
    by (simp_all add: py_eq0_def empty_data_def fundamentals_defs)
  obtain m where m: "calculate_all_metrics empty_data sample_today = Some m"
    by (simp add: calculate_all_metrics_def metrics_body_empty)
  from zero_guard_laws [of empty_data sample_today] m h
  have "map_of m ''Asset_Turnover'' = Some (PInt 0)" "map_of m ''Equity_Ratio'' = Some (PInt 0)"
    "map_of m ''ROA_%'' = Some (PInt 0)" "map_of m ''Altman_Z_Score'' = Some (PFloat (Fin 0))"
    "map_of m ''Debt_to_Equity'' = Some (PInt 0)" "map_of m ''ROE_%'' = Some (PInt 0)"
    "map_of m ''OCF_to_Debt'' = Some (PInt 0)"
    by blast+
  with m h show ?thesis by simp
qed

text \<open>
  C10. When none of the last 14 daily changes of the closing price is negative (every
  change inside the 14-row window, as far as the history reaches), the average loss is 0
  or undefined, the RSI series ends in NaN, and RSI_14 is the default 50.
\<close>

theorem rsi_default_without_losses:
  assumes "\<forall>i. 0 < i \<and> i < length (history data) \<and> length (history data) \<le> i + 14 \<longrightarrow>
             bar_close (history data ! (i - 1)) \<le> bar_close (history data ! i)"
    and "calculate_all_metrics data today = Some m"
  shows "map_of m ''RSI_14'' = Some (PInt 50) \<and>
         (history data \<noteq> [] \<longrightarrow> last (rsi_s (history data)) = NaN)"
proof -
  from assms(2) have body: "metrics_body data today = Inr m" by (simp add: calculate_Some_iff)
  have keys: "map fst m = SELECTED_FEATURES" using body by (rule metrics_body_keys)
  have "''RSI_14'' \<in> set SELECTED_FEATURES" by (simp add: SELECTED_FEATURES_def)
  then have some: "map_of m ''RSI_14'' = Some (the (map_of m ''RSI_14''))"
    using map_of_the [OF keys] by simp
  have r: "rsi14 (history data) = Inr (PInt 50)" using assms(1) by (rule rsi14_no_losses)
  then have "the (map_of m ''RSI_14'') = PInt 50" using metrics_body_rsi [OF body] by simp
  with some have 1: "map_of m ''RSI_14'' = Some (PInt 50)" by simp
  have 2: "last (rsi_s (history data)) = NaN" if "history data \<noteq> []"
    using r that by (simp add: rsi14_eq split: if_splits)
  from 1 2 show ?thesis by blast
qed

theorem rsi_default_without_losses_witness:
  "length (history rising_data) = 16 \<and>
   map_option (\<lambda>m. map_of m ''RSI_14'') (calculate_all_metrics rising_data sample_today)
     = Some (Some (PInt 50))"
proof -
  have len: "length (history rising_data) = 16"
    by (simp add: rising_data_def del: upt_rec_numeral)
  have nth: "bar_close (history rising_data ! i) = real (10 + i)" if "i < 16" for i
    using that by (simp add: rising_data_def del: upt_rec_numeral)
  have rising: "\<forall>i. 0 < i \<and> i < length (history rising_data) \<and>
      length (history rising_data) \<le> i + 14 \<longrightarrow>
      bar_close (history rising_data ! (i - 1)) \<le> bar_close (history rising_data ! i)"
  proof (intro allI impI)
    fix i assume i: "0 < i \<and> i < length (history rising_data) \<and>
      length (history rising_data) \<le> i + 14"
    then have "i < 16" "i - 1 < 16" by (auto simp add: len)
    then have "bar_close (history rising_data ! i) = real (10 + i)"
      "bar_close (history rising_data ! (i - 1)) = real (10 + (i - 1))"
      using nth by blast+
    then show "bar_close (history rising_data ! (i - 1)) \<le> bar_close (history rising_data ! i)"
      by simp
  qed
  have "assets rising_data \<noteq> PNone" "equity rising_data \<noteq> PNone"
    by (simp_all add: rising_data_def empty_data_def fundamentals_defs)
  then obtain m where m: "calculate_all_metrics rising_data sample_today = Some m"
    using calculate_all_metrics_None_iff [of rising_data sample_today] by auto
  from rsi_default_without_losses [OF rising m] have "map_of m ''RSI_14'' = Some (PInt 50)"
    by simp
  with m len show ?thesis by simp
qed


end
